theory Spec2Isabelle
  imports Complex_Main
begin

section \<open>Bollie Retain: the plugin instance and its block processing\<close>

text \<open>
  A shallow embedding of \<^verbatim>\<open>src/bollie-retain.c\<close>.

  \<^item> The C struct \<^verbatim>\<open>BollieRetain\<close> is the record \<open>BollieRetain\<close>. Its six port
    pointers are not fields of the record: the two control values, the input block and
    the output block are arguments and results of \<open>run\<close>.
  \<^item> C \<^verbatim>\<open>int\<close> is \<open>int\<close>. Signed overflow is undefined in C; none of the sums and
    differences below leaves the 32-bit range when the sizes and cursors are bounded by
    \<open>MAX_TAPE_LEN\<close>. The two state flags are C ints that only ever hold
    \<^verbatim>\<open>false\<close> or \<^verbatim>\<open>true\<close>; they are \<open>bool\<close>.
  \<^item> \<^verbatim>\<open>float\<close> and \<^verbatim>\<open>double\<close> values are finite real numbers. The two computations
    whose rounding accumulates or decides an integer are rounded as the machine does:
    the gain smoothing in binary32 and the sizes of \<^verbatim>\<open>instantiate\<close> in binary64, each
    operation to the nearest value, ties to even. The remaining sample arithmetic (one
    product or sum per stored or mixed sample, and the power in the gain targets) is
    exact.
  \<^item> The two tape buffers are stores from index to sample. An access outside
    \<open>[0, MAX_TAPE_LEN)\<close> and an integer division by zero are undefined behaviour in C;
    in the model they end the computation with a \<open>fault\<close>.
  \<^item> Every per-sample step also returns the list of buffer indices it read or wrote.
\<close>

subsection \<open>Data\<close>

definition MAX_TAPE_LEN :: int where
  "MAX_TAPE_LEN = 960000"

record BollieRetain =
  rate :: real
  n_loop_samples :: int
  n_fade_samples :: int
  pos_w :: int
  pos_r :: int
  listening :: bool
  looping :: bool
  dry_gain :: real
  wet_gain :: real
  buffer_l :: "int \<Rightarrow> real"
  buffer_r :: "int \<Rightarrow> real"

datatype fault = DivByZero | OutOfBounds int | NullDeref | IntOverflow

text \<open>An index the C arrays \<^verbatim>\<open>buffer_l[MAX_TAPE_LEN]\<close>, \<^verbatim>\<open>buffer_r[MAX_TAPE_LEN]\<close> have.\<close>

definition in_tape :: "int \<Rightarrow> bool" where
  "in_tape i = (0 \<le> i \<and> i < MAX_TAPE_LEN)"

subsection \<open>C arithmetic\<close>

text \<open>Integer division of C: the quotient is truncated towards zero.\<close>

definition c_div :: "int \<Rightarrow> int \<Rightarrow> int" where
  "c_div a b = sgn a * sgn b * (\<bar>a\<bar> div \<bar>b\<bar>)"

text \<open>
  Conversion of a \<^verbatim>\<open>double\<close> to \<^verbatim>\<open>int\<close>: the fraction is discarded. The behaviour is
  undefined when the result is not a value of the 32-bit \<^verbatim>\<open>int\<close>.
\<close>

definition c_trunc :: "real \<Rightarrow> int" where
  "c_trunc x = (if 0 \<le> x then \<lfloor>x\<rfloor> else \<lceil>x\<rceil>)"

definition to_int :: "real \<Rightarrow> fault + int" where
  "to_int x =
     (if - 2147483648 \<le> c_trunc x \<and> c_trunc x \<le> 2147483647 then Inr (c_trunc x)
      else Inl IntOverflow)"

text \<open>
  Rounding to a binary floating-point format with \<open>p\<close> bits of precision and least
  exponent \<open>emin\<close>: the real number is scaled by the unit in the last place of its
  binade (of the subnormal range below \<open>2 ^ emin\<close>), rounded to the nearest integer
  with ties to the even one, and scaled back. The exponent is not bounded above: a
  result beyond the largest finite value stands for an infinity. That does not happen
  for gains and targets between 0 and 1, and in \<^verbatim>\<open>instantiate\<close> such a value fails the
  conversion to \<^verbatim>\<open>int\<close> as an infinity does.
\<close>

definition rne :: "real \<Rightarrow> int" where
  "rne x =
     (let f = \<lfloor>x\<rfloor>; d = x - of_int f
      in if d < 1 / 2 then f else if d > 1 / 2 then f + 1 else if even f then f else f + 1)"

definition fp_round :: "int \<Rightarrow> int \<Rightarrow> real \<Rightarrow> real" where
  "fp_round p emin x =
     (if x = 0 then 0
      else let e = max \<lfloor>log 2 \<bar>x\<bar>\<rfloor> emin;
               u = 2 powr of_int (e - p + 1)
           in of_int (rne (x / u)) * u)"

text \<open>binary32 (\<^verbatim>\<open>float\<close>) and binary64 (\<^verbatim>\<open>double\<close>).\<close>

definition fl32 :: "real \<Rightarrow> real" where
  "fl32 = fp_round 24 (- 126)"

definition fl64 :: "real \<Rightarrow> real" where
  "fl64 = fp_round 53 (- 1022)"

subsection \<open>instantiate\<close>

text \<open>
  \<^verbatim>\<open>calloc\<close> gives a zeroed struct or \<^verbatim>\<open>NULL\<close>; which of the two is the argument
  \<open>calloc_ok\<close>. The source does not test the pointer: on \<^verbatim>\<open>NULL\<close> the first assignment
  dereferences it. Both sizes are assigned twice, as in the source, and each assignment
  converts a \<^verbatim>\<open>double\<close> to \<^verbatim>\<open>int\<close>. The literals \<^verbatim>\<open>0.2f\<close> and \<^verbatim>\<open>0.5f\<close> are binary32
  values, the products are computed in binary64. The function has one exit, which
  returns the instance: \<open>Inr None\<close> would be a \<^verbatim>\<open>NULL\<close> handle, which the host reads as a
  failed construction, and \<open>Inl\<close> is undefined behaviour.
\<close>

definition zeroed :: BollieRetain where
  "zeroed = \<lparr> rate = 0, n_loop_samples = 0, n_fade_samples = 0, pos_w = 0, pos_r = 0,
     listening = False, looping = False, dry_gain = 0, wet_gain = 0,
     buffer_l = (\<lambda>_. 0), buffer_r = (\<lambda>_. 0) \<rparr>"

definition instantiate :: "bool \<Rightarrow> real \<Rightarrow> fault + BollieRetain option" where
  "instantiate calloc_ok r =
     (if \<not> calloc_ok then Inl NullDeref
      else
        let self = zeroed\<lparr>rate := r\<rparr> in
        (case to_int (of_int \<lceil>fl64 (fl32 (2 / 10) * r)\<rceil>) of
           Inl e \<Rightarrow> Inl e
         | Inr fade_first \<Rightarrow>
        let self = self\<lparr>n_fade_samples := fade_first\<rparr> in
        (case to_int r of
           Inl e \<Rightarrow> Inl e
         | Inr fade \<Rightarrow>
        let self = self\<lparr>n_fade_samples := fade\<rparr> in
        (case to_int (of_int \<lceil>fl64 (fl32 (5 / 10) * r)\<rceil>) of
           Inl e \<Rightarrow> Inl e
         | Inr loop_first \<Rightarrow>
        let self = self\<lparr>n_loop_samples := loop_first\<rparr> in
        (case to_int (fl64 (5 * r)) of
           Inl e \<Rightarrow> Inl e
         | Inr loop \<Rightarrow> Inr (Some (self\<lparr>n_loop_samples := loop\<rparr>)))))))"

subsection \<open>activate\<close>

text \<open>The loop \<^verbatim>\<open>for (i = 0; i < MAX_TAPE_LEN; ++i)\<close> that clears both buffers.\<close>

function clear_from :: "int \<Rightarrow> BollieRetain \<Rightarrow> BollieRetain" where
  "clear_from i self =
     (if i < MAX_TAPE_LEN
      then clear_from (i + 1)
             (self\<lparr>buffer_l := (buffer_l self)(i := 0), buffer_r := (buffer_r self)(i := 0)\<rparr>)
      else self)"
  by pat_completeness auto
termination
  by (relation "measure (\<lambda>(i, self). nat (MAX_TAPE_LEN - i))") auto

declare clear_from.simps [simp del]

definition activate :: "BollieRetain \<Rightarrow> BollieRetain" where
  "activate self =
     (clear_from 0 self)\<lparr>pos_r := 0, pos_w := 0, dry_gain := 0, wet_gain := 0,
        listening := False, looping := True\<rparr>"

subsection \<open>run\<close>

text \<open>The gain targets of a block: \<open>(target_dry_gain, target_wet_gain)\<close>.\<close>

definition target_gains :: "real \<Rightarrow> real \<times> real" where
  "target_gains ctl_blend =
     (if ctl_blend > 0 \<and> ctl_blend < 50 then (1, 10 powr ((ctl_blend - 50) * 0.04))
      else if ctl_blend < 100 \<and> ctl_blend > 50 then (10 powr ((ctl_blend - 50) * - 0.04), 1)
      else if ctl_blend = 50 then (1, 1)
      else if ctl_blend = 100 then (0, 1)
      else (1, 0))"

text \<open>
  Parameter smoothing: \<^verbatim>\<open>gain = target * 0.01f + gain * 0.99f\<close>, computed in binary32.
  The two literals are the binary32 values nearest to 0.01 and 0.99, and each of the two
  products and the sum is rounded to binary32 (no wider intermediate precision, no fused
  multiply-add).
\<close>

definition smooth :: "real \<Rightarrow> real \<Rightarrow> real" where
  "smooth target gain = fl32 (fl32 (target * fl32 (1 / 100)) + fl32 (gain * fl32 (99 / 100)))"

text \<open>
  The fade coefficient of a captured sample, for \<open>pos_w < n_loop_samples\<close>. The products
  \<^verbatim>\<open>1/n_fade_samples * pos_w\<close> and \<^verbatim>\<open>1/n_fade_samples * (n_loop_samples-1 - pos_w)\<close>
  have \<^verbatim>\<open>int\<close> operands only: the quotient \<^verbatim>\<open>1/n_fade_samples\<close> is an integer division,
  evaluated first, and the integer product is converted to \<^verbatim>\<open>float\<close> by the assignment.
\<close>

definition fade_coeff :: "int \<Rightarrow> int \<Rightarrow> int \<Rightarrow> fault + real" where
  "fade_coeff n_loop n_fade w =
     (if w < n_fade then
        (if n_fade = 0 then Inl DivByZero
         else Inr (real_of_int (c_div 1 n_fade * w)))
      else if w \<ge> n_loop - n_fade then
        (if n_fade = 0 then Inl DivByZero
         else Inr (real_of_int (c_div 1 n_fade * (n_loop - 1 - w))))
      else Inr 1)"

text \<open>
  The branch \<^verbatim>\<open>if (listening && !looping)\<close> of the loop body: the new state and the
  indices touched. No wet sample is produced.
\<close>

definition capture :: "BollieRetain \<Rightarrow> real \<Rightarrow> real \<Rightarrow> fault + (BollieRetain \<times> int list)" where
  "capture s cur_s_l cur_s_r =
     (if pos_w s < n_loop_samples s then
        (case fade_coeff (n_loop_samples s) (n_fade_samples s) (pos_w s) of
           Inl e \<Rightarrow> Inl e
         | Inr coeff \<Rightarrow>
             if in_tape (pos_w s)
             then Inr (s\<lparr>buffer_l := (buffer_l s)(pos_w s := cur_s_l * coeff),
                         buffer_r := (buffer_r s)(pos_w s := cur_s_r * coeff),
                         pos_w := pos_w s + 1\<rparr>, [pos_w s])
             else Inl (OutOfBounds (pos_w s)))
      else Inr (s\<lparr>listening := False, looping := True, pos_w := 0\<rparr>, []))"

text \<open>
  The first half of the branch \<^verbatim>\<open>else if (looping)\<close>: the wet samples
  \<open>(wet_s_l, wet_s_r)\<close> read from the tape, and the indices read.
\<close>

definition wet_samples :: "BollieRetain \<Rightarrow> fault + ((real \<times> real) \<times> int list)" where
  "wet_samples s =
     (if pos_r s \<ge> n_loop_samples s - n_fade_samples s \<and> \<not> listening s then
        (let p = pos_r s - (n_loop_samples s - n_fade_samples s) in
         if \<not> in_tape (pos_r s) then Inl (OutOfBounds (pos_r s))
         else if \<not> in_tape p then Inl (OutOfBounds p)
         else Inr ((buffer_l s (pos_r s) + buffer_l s p,
                    buffer_r s (pos_r s) + buffer_r s p), [pos_r s, p]))
      else
        (if \<not> in_tape (pos_r s) then Inl (OutOfBounds (pos_r s))
         else Inr ((buffer_l s (pos_r s), buffer_r s (pos_r s)), [pos_r s])))"

text \<open>The second half: \<^verbatim>\<open>pos_r++\<close> and the reset at the end of the loop.\<close>

definition advance_read :: "BollieRetain \<Rightarrow> BollieRetain" where
  "advance_read s =
     (let s = s\<lparr>pos_r := pos_r s + 1\<rparr> in
      if pos_r s \<ge> n_loop_samples s then
        (if listening s then s\<lparr>looping := False, pos_r := 0\<rparr>
         else s\<lparr>pos_r := n_fade_samples s\<rparr>)
      else s)"

text \<open>
  One iteration of the loop over the block. The local copies \<^verbatim>\<open>dry_gain\<close>,
  \<^verbatim>\<open>wet_gain\<close>, \<^verbatim>\<open>pos_w\<close>, \<^verbatim>\<open>pos_r\<close>, \<^verbatim>\<open>listening\<close>, \<^verbatim>\<open>looping\<close> of the source are
  the fields of the state here: the body reads no field of \<^verbatim>\<open>self\<close> but the buffers and
  the two sizes, and the locals are stored back when the loop ends. The result is the new
  state, the output pair \<open>(output_l[i], output_r[i])\<close> and the indices touched.
\<close>

definition run_sample ::
  "real \<Rightarrow> real \<Rightarrow> BollieRetain \<Rightarrow> real \<times> real
     \<Rightarrow> fault + (BollieRetain \<times> (real \<times> real) \<times> int list)" where
  "run_sample target_dry_gain target_wet_gain s0 inp =
     (let s = s0\<lparr>wet_gain := smooth target_wet_gain (wet_gain s0),
                 dry_gain := smooth target_dry_gain (dry_gain s0)\<rparr>;
          cur_s_l = fst inp;
          cur_s_r = snd inp
      in
      if listening s \<and> \<not> looping s then
        (case capture s cur_s_l cur_s_r of
           Inl e \<Rightarrow> Inl e
         | Inr (s', tr) \<Rightarrow>
             Inr (s', (cur_s_l * dry_gain s + 0 * wet_gain s,
                       cur_s_r * dry_gain s + 0 * wet_gain s), tr))
      else if looping s then
        (case wet_samples s of
           Inl e \<Rightarrow> Inl e
         | Inr ((wet_s_l, wet_s_r), tr) \<Rightarrow>
             Inr (advance_read s, (cur_s_l * dry_gain s + wet_s_l * wet_gain s,
                                   cur_s_r * dry_gain s + wet_s_r * wet_gain s), tr))
      else
        Inr (s, (cur_s_l * dry_gain s + 0 * wet_gain s,
                 cur_s_r * dry_gain s + 0 * wet_gain s), []))"

text \<open>The loop over the block: the outputs and the touched indices are collected in order.\<close>

fun run_loop ::
  "real \<Rightarrow> real \<Rightarrow> BollieRetain \<Rightarrow> (real \<times> real) list
     \<Rightarrow> fault + (BollieRetain \<times> (real \<times> real) list \<times> int list)" where
  "run_loop td tw s [] = Inr (s, [], [])"
| "run_loop td tw s (x # xs) =
     (case run_sample td tw s x of
        Inl e \<Rightarrow> Inl e
      | Inr (s', out, tr) \<Rightarrow>
          (case run_loop td tw s' xs of
             Inl e \<Rightarrow> Inl e
           | Inr (s'', outs, trs) \<Rightarrow> Inr (s'', out # outs, tr @ trs)))"

text \<open>
  \<^verbatim>\<open>run\<close>: the block is the list of input pairs \<open>(input_l[i], input_r[i])\<close>, and
  \<^verbatim>\<open>n_samples\<close> is its length. The trigger is tested once, before the loop.
\<close>

definition run ::
  "BollieRetain \<Rightarrow> real \<Rightarrow> real \<Rightarrow> (real \<times> real) list
     \<Rightarrow> fault + (BollieRetain \<times> (real \<times> real) list \<times> int list)" where
  "run self ctl_blend ctl_trigger ins =
     (let s = (if ctl_trigger > 0 \<and> \<not> listening self then self\<lparr>listening := True\<rparr> else self)
      in run_loop (fst (target_gains ctl_blend)) (snd (target_gains ctl_blend)) s ins)"

subsection \<open>The cursor invariant\<close>

text \<open>
  The sizes fit the tape, the fade is not negative and shorter than the loop, the write cursor is in
  \<open>[0, n_loop_samples]\<close> and the read cursor in \<open>[0, n_loop_samples)\<close>.
\<close>

definition cursors_ok :: "BollieRetain \<Rightarrow> bool" where
  "cursors_ok s =
     (0 \<le> n_fade_samples s \<and> n_fade_samples s < n_loop_samples s \<and>
      n_loop_samples s \<le> MAX_TAPE_LEN \<and>
      0 \<le> pos_w s \<and> pos_w s \<le> n_loop_samples s \<and>
      0 \<le> pos_r s \<and> pos_r s < n_loop_samples s)"

text \<open>
  The two sizes of a state are those of an instance that \<^verbatim>\<open>instantiate\<close> returns for
  some sample rate. No other function of the source assigns them.
\<close>

definition instantiated :: "BollieRetain \<Rightarrow> bool" where
  "instantiated s =
     (\<exists>r i. instantiate True r = Inr (Some i) \<and>
        n_fade_samples s = n_fade_samples i \<and> n_loop_samples s = n_loop_samples i)"

text \<open>
  Playback with no capture pending, the read cursor past the faded-in head of the tape.
\<close>

definition playing :: "BollieRetain \<Rightarrow> bool" where
  "playing s = (cursors_ok s \<and> looping s \<and> \<not> listening s \<and> n_fade_samples s \<le> pos_r s)"

subsection \<open>Concrete instances\<close>

text \<open>
  \<open>tiny\<close> is the instance of sample rate 4 after \<^verbatim>\<open>activate\<close>: a fade of 4 samples in a
  loop of 20. \<open>tiny_capturing\<close> is that instance in its capture phase with two samples
  written, \<open>tiny_playing\<close> the same instance with a recognisable tape (sample \<open>i\<close> is
  \<open>i\<close> on the left and \<open>-i\<close> on the right). \<open>no_fade\<close> is the capturing instance of
  sample rate 0.5, whose fade length is 0 and whose loop has 2 samples.
\<close>

definition tiny :: BollieRetain where
  "tiny = activate (the (projr (instantiate True 4)))"

definition tiny_capturing :: BollieRetain where
  "tiny_capturing = tiny\<lparr>listening := True, looping := False, pos_w := 2\<rparr>"

definition tiny_playing :: BollieRetain where
  "tiny_playing = tiny\<lparr>buffer_l := (\<lambda>i. if in_tape i then real_of_int i else 0),
                        buffer_r := (\<lambda>i. if in_tape i then - real_of_int i else 0)\<rparr>"

definition no_fade :: BollieRetain where
  "no_fade = (activate (the (projr (instantiate True 0.5))))\<lparr>listening := True, looping := False\<rparr>"

section \<open>Properties\<close>

subsection \<open>Auxiliary facts: activate and the concrete instances\<close>

lemma clear_from_buffers:
  "clear_from i s = s\<lparr>buffer_l := (\<lambda>j. if i \<le> j \<and> j < MAX_TAPE_LEN then 0 else buffer_l s j),
                       buffer_r := (\<lambda>j. if i \<le> j \<and> j < MAX_TAPE_LEN then 0 else buffer_r s j)\<rparr>"
proof (induction i s rule: clear_from.induct)
  case (1 i self)
  show ?case
  proof (cases "i < MAX_TAPE_LEN")
    case True
    have step: "clear_from i self = clear_from (i + 1)
             (self\<lparr>buffer_l := (buffer_l self)(i := 0), buffer_r := (buffer_r self)(i := 0)\<rparr>)"
      using True by (subst clear_from.simps) simp
    show ?thesis
      unfolding step "1.IH" [OF True]
      by (rule BollieRetain.equality) (use True in \<open>auto simp: fun_eq_iff\<close>)
  next
    case False
    have stop: "clear_from i self = self"
      using False by (subst clear_from.simps) simp
    show ?thesis
      unfolding stop
      by (rule BollieRetain.equality) (use False in \<open>auto simp: fun_eq_iff\<close>)
  qed
qed

lemma activate_eq:
  "activate s = s\<lparr>buffer_l := (\<lambda>j. if in_tape j then 0 else buffer_l s j),
                   buffer_r := (\<lambda>j. if in_tape j then 0 else buffer_r s j),
                   pos_r := 0, pos_w := 0, dry_gain := 0, wet_gain := 0,
                   listening := False, looping := True\<rparr>"
  by (simp add: activate_def clear_from_buffers in_tape_def)

subsection \<open>Auxiliary facts: rounding\<close>

text \<open>
  Rounding keeps an integer, moves a number by at most half a unit in the last place,
  and keeps every number that has a short enough mantissa.
\<close>

lemma rne_of_int [simp]: "rne (of_int z) = z"
  by (simp add: rne_def)

lemma rne_error: "\<bar>of_int (rne x) - x\<bar> \<le> 1 / 2"
  unfolding rne_def Let_def by (auto; linarith)

lemma fp_round_zero [simp]: "fp_round p emin 0 = 0"
  by (simp add: fp_round_def)

lemma fp_round_eval:
  assumes "2 powr of_int e \<le> \<bar>x\<bar>" and "\<bar>x\<bar> < 2 powr of_int (e + 1)" and "emin \<le> e"
  shows "fp_round p emin x = of_int (rne (x / 2 powr of_int (e - p + 1))) * 2 powr of_int (e - p + 1)"
proof -
  have "0 < 2 powr real_of_int e" by simp
  with assms(1) have pos: "0 < \<bar>x\<bar>" by linarith
  then have "\<lfloor>log 2 \<bar>x\<bar>\<rfloor> = e"
    using assms by (subst floor_log_eq_powr_iff) simp_all
  with pos assms(3) show ?thesis by (simp add: fp_round_def Let_def max_def)
qed

lemma fp_round_error:
  "\<bar>fp_round p emin x - x\<bar> \<le> \<bar>x\<bar> * 2 powr (- of_int p) + 2 powr of_int (emin - p)"
proof (cases "x = 0")
  case True
  then show ?thesis by simp
next
  case False
  define e where "e = max \<lfloor>log 2 \<bar>x\<bar>\<rfloor> emin"
  define u :: real where "u = 2 powr of_int (e - p + 1)"
  have u: "0 < u" by (simp add: u_def)
  have fp: "fp_round p emin x = of_int (rne (x / u)) * u"
    using False by (simp add: fp_round_def Let_def e_def u_def)
  have "\<bar>of_int (rne (x / u)) * u - x\<bar> = \<bar>of_int (rne (x / u)) - x / u\<bar> * u"
    using u by (simp add: abs_mult_pos' [symmetric] field_simps)
  also have "\<dots> \<le> 1 / 2 * u"
    using rne_error [of "x / u"] u by (intro mult_right_mono) simp_all
  also have "\<dots> = 2 powr of_int (e - p)"
  proof -
    have "of_int (e - p + 1) = (of_int (e - p) :: real) + 1" by simp
    then have "u = 2 powr of_int (e - p) * 2 powr 1" unfolding u_def by (simp only: powr_add)
    then show ?thesis by simp
  qed
  finally have half: "\<bar>fp_round p emin x - x\<bar> \<le> 2 powr of_int (e - p)" by (simp add: fp)
  show ?thesis
  proof (cases "emin \<le> \<lfloor>log 2 \<bar>x\<bar>\<rfloor>")
    case True
    then have e: "e = \<lfloor>log 2 \<bar>x\<bar>\<rfloor>" by (simp add: e_def)
    have "2 powr of_int e \<le> \<bar>x\<bar>"
      using False floor_log_eq_powr_iff [of "\<bar>x\<bar>" 2 e] e by simp
    then have "2 powr of_int (e - p) \<le> \<bar>x\<bar> * 2 powr (- of_int p)"
      by (simp add: powr_diff powr_minus field_simps)
    moreover have "0 \<le> 2 powr real_of_int (emin - p)" by simp
    ultimately show ?thesis using half by linarith
  next
    case False
    then have "e = emin" by (simp add: e_def)
    with half have "\<bar>fp_round p emin x - x\<bar> \<le> 2 powr of_int (emin - p)" by simp
    moreover have "0 \<le> \<bar>x\<bar> * 2 powr (- of_int p)" by simp
    ultimately show ?thesis by linarith
  qed
qed

lemma fp_round_exact:
  assumes x: "x = of_int m * 2 powr of_int k" and m: "\<bar>m\<bar> < 2 ^ nat p" and p: "0 < p"
    and k: "emin - p + 1 \<le> k"
  shows "fp_round p emin x = x"
proof (cases "x = 0")
  case True
  then show ?thesis by simp
next
  case False
  define e where "e = max \<lfloor>log 2 \<bar>x\<bar>\<rfloor> emin"
  define u :: real where "u = 2 powr of_int (e - p + 1)"
  have fp: "fp_round p emin x = of_int (rne (x / u)) * u"
    using False by (simp add: fp_round_def Let_def e_def u_def)
  have "\<bar>x\<bar> < 2 powr of_int (p + k)"
  proof -
    have "\<bar>x\<bar> = of_int \<bar>m\<bar> * 2 powr of_int k" by (simp add: x abs_mult)
    also have "\<dots> < 2 ^ nat p * 2 powr of_int k"
    proof -
      have "real_of_int \<bar>m\<bar> < real_of_int (2 ^ nat p)" using m by (simp only: of_int_less_iff)
      then show ?thesis by (intro mult_strict_right_mono) simp_all
    qed
    also have "\<dots> = 2 powr of_int (p + k)"
      using p by (simp add: powr_add powr_realpow [symmetric])
    finally show ?thesis .
  qed
  moreover have "2 powr of_int \<lfloor>log 2 \<bar>x\<bar>\<rfloor> \<le> \<bar>x\<bar>"
    using False floor_log_eq_powr_iff [of "\<bar>x\<bar>" 2 "\<lfloor>log 2 \<bar>x\<bar>\<rfloor>"] by simp
  ultimately have "(2::real) powr of_int \<lfloor>log 2 \<bar>x\<bar>\<rfloor> < 2 powr of_int (p + k)" by linarith
  then have "\<lfloor>log 2 \<bar>x\<bar>\<rfloor> < p + k" by simp
  with k have sh: "0 \<le> k - (e - p + 1)" by (simp add: e_def)
  have "x / u = of_int m * 2 powr of_int (k - (e - p + 1))"
    by (simp add: x u_def powr_diff)
  also have "\<dots> = of_int (m * 2 ^ nat (k - (e - p + 1)))"
    using sh by (simp add: powr_realpow [symmetric])
  finally have "of_int (rne (x / u)) = x / u" by (simp only: rne_of_int)
  then show ?thesis by (simp add: fp u_def)
qed

lemma pow2_neg: "2 powr of_int (- int k) = (1 :: real) / 2 ^ k"
  by (simp add: powr_minus powr_realpow divide_simps)

lemma fl32_error: "\<bar>fl32 x - x\<bar> \<le> \<bar>x\<bar> / 2 ^ 24 + 1 / 2 ^ 150"
proof -
  have a: "2 powr (- real_of_int 24) = (1 :: real) / 2 ^ 24" using pow2_neg [of 24] by simp
  have b: "2 powr real_of_int (- 126 - 24) = (1 :: real) / 2 ^ 150" using pow2_neg [of 150] by simp
  have "\<bar>fp_round 24 (- 126) x - x\<bar> \<le> \<bar>x\<bar> * 2 powr (- real_of_int 24) + 2 powr real_of_int (- 126 - 24)"
    by (rule fp_round_error)
  then have "\<bar>fp_round 24 (- 126) x - x\<bar> \<le> \<bar>x\<bar> * (1 / 2 ^ 24) + 1 / 2 ^ 150"
    by (simp only: a b)
  then show ?thesis by (simp add: fl32_def)
qed

lemma fl64_error: "\<bar>fl64 x - x\<bar> \<le> \<bar>x\<bar> / 2 ^ 53 + 1 / 2 ^ 1075"
proof -
  have a: "2 powr (- real_of_int 53) = (1 :: real) / 2 ^ 53" using pow2_neg [of 53] by simp
  have b: "2 powr real_of_int (- 1022 - 53) = (1 :: real) / 2 ^ 1075" using pow2_neg [of 1075] by simp
  have "\<bar>fp_round 53 (- 1022) x - x\<bar> \<le> \<bar>x\<bar> * 2 powr (- real_of_int 53) + 2 powr real_of_int (- 1022 - 53)"
    by (rule fp_round_error)
  then have "\<bar>fp_round 53 (- 1022) x - x\<bar> \<le> \<bar>x\<bar> * (1 / 2 ^ 53) + 1 / 2 ^ 1075"
    by (simp only: a b)
  then show ?thesis by (simp add: fl64_def)
qed

lemma fl64_dyadic:
  assumes "\<bar>m\<bar> < 2 ^ 53" and "k \<le> 1074"
  shows "fl64 (of_int m / 2 ^ k) = of_int m / 2 ^ k"
proof -
  have x: "real_of_int m / 2 ^ k = of_int m * 2 powr of_int (- int k)"
    by (simp only: pow2_neg) simp
  have m: "\<bar>m\<bar> < 2 ^ nat 53" using assms(1) by simp
  have k: "- 1022 - 53 + 1 \<le> - int k" using assms(2) by simp
  show ?thesis unfolding fl64_def by (rule fp_round_exact [OF x m _ k]) simp
qed

lemma fl32_dyadic:
  assumes "\<bar>m\<bar> < 2 ^ 24" and "k \<le> 149"
  shows "fl32 (of_int m / 2 ^ k) = of_int m / 2 ^ k"
proof -
  have x: "real_of_int m / 2 ^ k = of_int m * 2 powr of_int (- int k)"
    by (simp only: pow2_neg) simp
  have m: "\<bar>m\<bar> < 2 ^ nat 24" using assms(1) by simp
  have k: "- 126 - 24 + 1 \<le> - int k" using assms(2) by simp
  show ?thesis unfolding fl32_def by (rule fp_round_exact [OF x m _ k]) simp
qed

lemma fl32_zero [simp]: "fl32 0 = 0"
  by (simp add: fl32_def)

lemma fl64_zero [simp]: "fl64 0 = 0"
  by (simp add: fl64_def)

lemma fl32_at:
  assumes "2 powr of_int e \<le> \<bar>x\<bar>" and "\<bar>x\<bar> < 2 powr of_int (e + 1)" and "- 126 \<le> e"
  shows "fl32 x = of_int (rne (x / 2 powr of_int (e - 23))) * 2 powr of_int (e - 23)"
  using fp_round_eval [OF assms(1,2), of "- 126" 24] assms(3) by (simp add: fl32_def)

lemma fl32_neg:
  fixes k :: nat
  assumes "1 / 2 ^ k \<le> \<bar>x\<bar>" and "\<bar>x\<bar> < 2 / 2 ^ k" and "k \<le> 126"
  shows "fl32 x = of_int (rne (x * 2 ^ (k + 23))) / 2 ^ (k + 23)"
proof -
  have p: "2 powr of_int (- int k) = (1 :: real) / 2 ^ k" by (rule pow2_neg)
  have q: "2 powr of_int (- int k + 1) = (2 :: real) / 2 ^ k"
  proof -
    have "(of_int (- int k + 1) :: real) = - real k + 1" by simp
    then have "2 powr of_int (- int k + 1) = (2 :: real) powr (- real k) * 2 powr 1"
      by (simp only: powr_add)
    also have "\<dots> = 2 / 2 ^ k" by (simp add: powr_minus powr_realpow divide_simps)
    finally show ?thesis .
  qed
  have r: "2 powr of_int (- int k - 23) = (1 :: real) / 2 ^ (k + 23)"
    using pow2_neg [of "k + 23"] by simp
  have a1: "2 powr of_int (- int k) \<le> \<bar>x\<bar>" using assms(1) by (simp only: p)
  have a2: "\<bar>x\<bar> < 2 powr of_int (- int k + 1)" using assms(2) by (simp only: q)
  have a3: "- 126 \<le> - int k" using assms(3) by simp
  from fl32_at [OF a1 a2 a3]
  have "fl32 x = of_int (rne (x / 2 powr of_int (- int k - 23))) * 2 powr of_int (- int k - 23)" .
  then show ?thesis by (simp only: r) simp
qed

text \<open>The literals \<^verbatim>\<open>0.01f\<close>, \<^verbatim>\<open>0.99f\<close>, \<^verbatim>\<open>0.2f\<close> and \<^verbatim>\<open>0.5f\<close>.\<close>

lemma c01f: "fl32 (1 / 100) = 5368709 / 536870912"
  by (subst fl32_neg [where k = 7]) (simp_all add: rne_def)

lemma c99f: "fl32 (99 / 100) = 4152361 / 4194304"
  by (subst fl32_neg [where k = 1]) (simp_all add: rne_def)

lemma c02f: "fl32 (1 / 5) = 13421773 / 67108864"
  by (subst fl32_neg [where k = 3]) (simp_all add: rne_def)

lemma c05f: "fl32 (1 / 2) = 1 / 2"
  using fl32_dyadic [of 1 1] by simp

text \<open>Rounding in the binades between 1/256 and 1, where the gains of the examples are.\<close>

lemma fl32_b1: "1 / 2 \<le> x \<Longrightarrow> x < 1 \<Longrightarrow> fl32 x = of_int (rne (x * 16777216)) / 16777216"
  by (subst fl32_neg [where k = 1]) simp_all
lemma fl32_b2: "1 / 4 \<le> x \<Longrightarrow> x < 1 / 2 \<Longrightarrow> fl32 x = of_int (rne (x * 33554432)) / 33554432"
  by (subst fl32_neg [where k = 2]) simp_all
lemma fl32_b3: "1 / 8 \<le> x \<Longrightarrow> x < 1 / 4 \<Longrightarrow> fl32 x = of_int (rne (x * 67108864)) / 67108864"
  by (subst fl32_neg [where k = 3]) simp_all
lemma fl32_b4: "1 / 16 \<le> x \<Longrightarrow> x < 1 / 8 \<Longrightarrow> fl32 x = of_int (rne (x * 134217728)) / 134217728"
  by (subst fl32_neg [where k = 4]) simp_all
lemma fl32_b5: "1 / 32 \<le> x \<Longrightarrow> x < 1 / 16 \<Longrightarrow> fl32 x = of_int (rne (x * 268435456)) / 268435456"
  by (subst fl32_neg [where k = 5]) simp_all
lemma fl32_b6: "1 / 64 \<le> x \<Longrightarrow> x < 1 / 32 \<Longrightarrow> fl32 x = of_int (rne (x * 536870912)) / 536870912"
  by (subst fl32_neg [where k = 6]) simp_all
lemma fl32_b7: "1 / 128 \<le> x \<Longrightarrow> x < 1 / 64 \<Longrightarrow> fl32 x = of_int (rne (x * 1073741824)) / 1073741824"
  by (subst fl32_neg [where k = 7]) simp_all
lemma fl32_b8: "1 / 256 \<le> x \<Longrightarrow> x < 1 / 128 \<Longrightarrow> fl32 x = of_int (rne (x * 2147483648)) / 2147483648"
  by (subst fl32_neg [where k = 8]) simp_all

lemmas fl32_eval = c01f c99f fl32_b1 fl32_b2 fl32_b3 fl32_b4 fl32_b5 fl32_b6 fl32_b7 fl32_b8 rne_def

text \<open>
  The first three steps of the smoothing from 0 towards 1, the step from 0 towards 0,
  and a gain below 1 that a step towards 1 does not move.
\<close>

lemma smooth_1_0: "smooth 1 0 = 5368709 / 536870912"
  by (simp add: smooth_def fl32_eval)
lemma smooth_1_1: "smooth 1 (5368709 / 536870912) = 10683731 / 536870912"
  by (simp add: smooth_def fl32_eval)
lemma smooth_1_2: "smooth 1 (10683731 / 536870912) = 15945603 / 536870912"
  by (simp add: smooth_def fl32_eval)
lemma smooth_0_0: "smooth 0 0 = 0"
  by (simp add: smooth_def)
lemma smooth_stall: "smooth 1 (8388583 / 8388608) = 8388583 / 8388608"
  by (simp add: smooth_def fl32_eval)

subsection \<open>Auxiliary facts: the concrete instances\<close>

lemma instantiate_4:
  "instantiate True 4 = Inr (Some (zeroed\<lparr>rate := 4, n_fade_samples := 4, n_loop_samples := 20\<rparr>))"
proof -
  have a: "fl64 (13421773 / 16777216) = 13421773 / 16777216"
    using fl64_dyadic [of 13421773 24] by simp
  have b: "fl64 2 = 2" using fl64_dyadic [of 2 0] by simp
  have c: "fl64 20 = 20" using fl64_dyadic [of 20 0] by simp
  show ?thesis
    by (simp add: instantiate_def to_int_def c_trunc_def c02f c05f a b c zeroed_def)
qed

lemma instantiate_half:
  "instantiate True (1 / 2) = Inr (Some (zeroed\<lparr>rate := 1 / 2, n_fade_samples := 0, n_loop_samples := 2\<rparr>))"
proof -
  have a: "fl64 (13421773 / 134217728) = 13421773 / 134217728"
    using fl64_dyadic [of 13421773 27] by simp
  have b: "fl64 (1 / 4) = 1 / 4" using fl64_dyadic [of 1 2] by simp
  have c: "fl64 (5 / 2) = 5 / 2" using fl64_dyadic [of 5 1] by simp
  show ?thesis
    by (simp add: instantiate_def to_int_def c_trunc_def c02f c05f a b c zeroed_def)
qed

lemma tiny_eq:
  "tiny = \<lparr> rate = 4, n_loop_samples = 20, n_fade_samples = 4, pos_w = 0, pos_r = 0,
     listening = False, looping = True, dry_gain = 0, wet_gain = 0,
     buffer_l = (\<lambda>_. 0), buffer_r = (\<lambda>_. 0) \<rparr>"
  by (simp add: tiny_def activate_eq instantiate_4 zeroed_def fun_eq_iff)

lemma no_fade_eq:
  "no_fade = \<lparr> rate = 0.5, n_loop_samples = 2, n_fade_samples = 0, pos_w = 0, pos_r = 0,
     listening = True, looping = False, dry_gain = 0, wet_gain = 0,
     buffer_l = (\<lambda>_. 0), buffer_r = (\<lambda>_. 0) \<rparr>"
  by (simp add: no_fade_def activate_eq instantiate_half zeroed_def fun_eq_iff)

lemma tiny_capturing_eq:
  "tiny_capturing = \<lparr> rate = 4, n_loop_samples = 20, n_fade_samples = 4, pos_w = 2, pos_r = 0,
     listening = True, looping = False, dry_gain = 0, wet_gain = 0,
     buffer_l = (\<lambda>_. 0), buffer_r = (\<lambda>_. 0) \<rparr>"
  by (simp add: tiny_capturing_def tiny_eq)

lemma tiny_playing_eq:
  "tiny_playing = \<lparr> rate = 4, n_loop_samples = 20, n_fade_samples = 4, pos_w = 0, pos_r = 0,
     listening = False, looping = True, dry_gain = 0, wet_gain = 0,
     buffer_l = (\<lambda>i. if in_tape i then real_of_int i else 0),
     buffer_r = (\<lambda>i. if in_tape i then - real_of_int i else 0) \<rparr>"
  by (simp add: tiny_playing_def tiny_eq)

lemmas eval_defs = run_def run_sample_def capture_def wet_samples_def advance_read_def
  fade_coeff_def c_div_def target_gains_def in_tape_def MAX_TAPE_LEN_def Let_def
  smooth_1_0 smooth_1_1 smooth_1_2 smooth_0_0

subsection \<open>Auxiliary facts: the cursor invariant is kept by every block\<close>

lemma fade_coeff_ok:
  "0 \<le> n_fade \<Longrightarrow> 0 \<le> w \<Longrightarrow> w < n_loop \<Longrightarrow> \<exists>c. fade_coeff n_loop n_fade w = Inr c"
  by (auto simp: fade_coeff_def)

lemma capture_ok:
  assumes "cursors_ok s"
  shows "\<exists>s' tr. capture s l r = Inr (s', tr) \<and> cursors_ok s' \<and>
           n_loop_samples s' = n_loop_samples s \<and> n_fade_samples s' = n_fade_samples s \<and>
           (\<forall>i\<in>set tr. 0 \<le> i \<and> i < n_loop_samples s)"
proof (cases "pos_w s < n_loop_samples s")
  case True
  with assms obtain c where c: "fade_coeff (n_loop_samples s) (n_fade_samples s) (pos_w s) = Inr c"
    using fade_coeff_ok [of "n_fade_samples s" "pos_w s" "n_loop_samples s"]
    by (auto simp: cursors_ok_def)
  from True assms have "in_tape (pos_w s)" by (simp add: cursors_ok_def in_tape_def)
  with True c assms show ?thesis by (simp add: capture_def cursors_ok_def)
next
  case False
  with assms show ?thesis by (simp add: capture_def cursors_ok_def)
qed

lemma wet_samples_ok:
  assumes "cursors_ok s"
  shows "\<exists>w tr. wet_samples s = Inr (w, tr) \<and> (\<forall>i\<in>set tr. 0 \<le> i \<and> i < n_loop_samples s)"
  using assms by (auto simp: wet_samples_def cursors_ok_def in_tape_def Let_def)

lemma advance_read_ok:
  assumes "cursors_ok s"
  shows "cursors_ok (advance_read s) \<and> n_loop_samples (advance_read s) = n_loop_samples s \<and>
         n_fade_samples (advance_read s) = n_fade_samples s"
  using assms by (auto simp: advance_read_def cursors_ok_def Let_def)

lemma run_sample_ok:
  assumes "cursors_ok s"
  shows "\<exists>s' out tr. run_sample td tw s x = Inr (s', out, tr) \<and> cursors_ok s' \<and>
           n_loop_samples s' = n_loop_samples s \<and> n_fade_samples s' = n_fade_samples s \<and>
           (\<forall>i\<in>set tr. 0 \<le> i \<and> i < n_loop_samples s)"
proof -
  let ?s = "s\<lparr>wet_gain := smooth tw (wet_gain s), dry_gain := smooth td (dry_gain s)\<rparr>"
  have ok: "cursors_ok ?s" using assms by (simp add: cursors_ok_def)
  have sz: "n_loop_samples ?s = n_loop_samples s" "n_fade_samples ?s = n_fade_samples s" by simp_all
  consider (cap) "listening s \<and> \<not> looping s" | (play) "looping s" | (idle) "\<not> listening s \<and> \<not> looping s"
    by blast
  then show ?thesis
  proof cases
    case cap
    from capture_ok [OF ok, of "fst x" "snd x"] obtain s' tr where
      "capture ?s (fst x) (snd x) = Inr (s', tr)" "cursors_ok s'"
      "n_loop_samples s' = n_loop_samples s" "n_fade_samples s' = n_fade_samples s"
      "\<forall>i\<in>set tr. 0 \<le> i \<and> i < n_loop_samples s"
      unfolding sz by blast
    with cap show ?thesis by (simp add: run_sample_def Let_def)
  next
    case play
    from wet_samples_ok [OF ok] obtain w tr where
      "wet_samples ?s = Inr (w, tr)" "\<forall>i\<in>set tr. 0 \<le> i \<and> i < n_loop_samples s"
      unfolding sz by blast
    with play advance_read_ok [OF ok] show ?thesis
      by (cases w) (simp add: run_sample_def Let_def)
  next
    case idle
    with ok show ?thesis by (simp add: run_sample_def Let_def)
  qed
qed

lemma run_loop_ok:
  "cursors_ok s \<Longrightarrow>
     \<exists>s' outs trs. run_loop td tw s xs = Inr (s', outs, trs) \<and> cursors_ok s' \<and>
       n_loop_samples s' = n_loop_samples s \<and> n_fade_samples s' = n_fade_samples s \<and>
       length outs = length xs \<and> (\<forall>i\<in>set trs. 0 \<le> i \<and> i < n_loop_samples s)"
proof (induction xs arbitrary: s)
  case Nil
  then show ?case by simp
next
  case (Cons x xs)
  from run_sample_ok [OF Cons.prems, of td tw x] obtain s1 out tr where
    one: "run_sample td tw s x = Inr (s1, out, tr)" and ok1: "cursors_ok s1" and
    sz1: "n_loop_samples s1 = n_loop_samples s" "n_fade_samples s1 = n_fade_samples s" and
    tr1: "\<forall>i\<in>set tr. 0 \<le> i \<and> i < n_loop_samples s"
    by blast
  from Cons.IH [OF ok1] obtain s' outs trs where
    rest: "run_loop td tw s1 xs = Inr (s', outs, trs)" and ok': "cursors_ok s'" and
    sz': "n_loop_samples s' = n_loop_samples s1" "n_fade_samples s' = n_fade_samples s1" and
    len: "length outs = length xs" and
    trs: "\<forall>i\<in>set trs. 0 \<le> i \<and> i < n_loop_samples s1"
    by blast
  from one rest ok' sz1 sz' len tr1 trs show ?case by auto
qed

lemma run_ok:
  assumes "cursors_ok s"
  shows "\<exists>s' outs trs. run s blend trig ins = Inr (s', outs, trs) \<and> cursors_ok s' \<and>
       n_loop_samples s' = n_loop_samples s \<and> n_fade_samples s' = n_fade_samples s \<and>
       length outs = length ins \<and> (\<forall>i\<in>set trs. 0 \<le> i \<and> i < n_loop_samples s)"
proof -
  define s0 where "s0 = (if trig > 0 \<and> \<not> listening s then s\<lparr>listening := True\<rparr> else s)"
  have ok: "cursors_ok s0" and sz: "n_loop_samples s0 = n_loop_samples s"
    "n_fade_samples s0 = n_fade_samples s"
    using assms by (simp_all add: s0_def cursors_ok_def)
  have "run s blend trig ins = run_loop (fst (target_gains blend)) (snd (target_gains blend)) s0 ins"
    by (simp add: run_def s0_def)
  with run_loop_ok [OF ok, of "fst (target_gains blend)" "snd (target_gains blend)" ins]
  show ?thesis by (simp add: sz)
qed

lemma cursors_ok_tiny: "cursors_ok tiny"
  by (simp add: cursors_ok_def tiny_eq MAX_TAPE_LEN_def)

subsection \<open>The fade coefficient is computed in integer arithmetic\<close>

lemma c_div_one: "1 < n \<Longrightarrow> c_div 1 n = 0"
  by (simp add: c_div_def)

text \<open>
  For every fade length above 1 the quotient \<^verbatim>\<open>1/n_fade_samples\<close> is 0, and so is the
  coefficient in the whole fade-in and fade-out region.
\<close>

lemma fade_coeff_truncated:
  "1 < n_fade \<Longrightarrow> w < n_fade \<or> n_loop - n_fade \<le> w \<Longrightarrow> fade_coeff n_loop n_fade w = Inr 0"
  by (auto simp: fade_coeff_def c_div_one)

text \<open>
  With a fade length of 1 the quotient is 1, and both coefficients are 0 at the only
  offset there is. So the two coefficients of a crossfade position never add up to 1.
\<close>

lemma crossfade_sum_zero:
  assumes "1 \<le> n_fade" and "2 * n_fade \<le> n_loop" and "0 \<le> ofs" and "ofs < n_fade"
  shows "fade_coeff n_loop n_fade (n_loop - n_fade + ofs) = Inr 0 \<and>
         fade_coeff n_loop n_fade ofs = Inr 0"
proof (cases "n_fade = 1")
  case True
  with assms show ?thesis by (simp add: fade_coeff_def c_div_def)
next
  case False
  with assms have "1 < n_fade" by simp
  with assms show ?thesis by (simp add: fade_coeff_truncated)
qed

text \<open>
  C1 (the capture fade is a linear ramp \<open>writeCursor / fadeLengthSamples\<close> computed as a
  floating-point division): the code does not do this. The instance of sample rate 4,
  triggered and fed 23 samples of amplitude 1, plays its 20 samples of silence, then
  captures three samples at the write positions 0, 1, 2. A linear fade-in would store
  0, 1/4 and 2/4; the code stores 0 at all three positions, because the coefficient
  at write position 2 of a 4-sample fade is the integer product \<open>(1 div 4) * 2 = 0\<close>.
  The second conjunct is the single capture step at write position 2. In the fade-out
  region it is the same: at write position 17 the coefficient is 0, not \<open>(20 - 1 - 17) / 4\<close>.
\<close>

theorem fade_in_truncated:
  "(case run tiny 50 1 (replicate 23 (1, 1)) of
      Inl e \<Rightarrow> False
    | Inr (s', outs, trs) \<Rightarrow>
        listening s' \<and> \<not> looping s' \<and> pos_w s' = 3 \<and>
        buffer_l s' 0 = 0 \<and> buffer_l s' 1 = 0 \<and> buffer_l s' 2 = 0 \<and>
        buffer_r s' 0 = 0 \<and> buffer_r s' 1 = 0 \<and> buffer_r s' 2 = 0) \<and>
   run_sample 1 1 tiny_capturing (1, 1) =
     Inr (tiny_capturing\<lparr>wet_gain := 5368709 / 536870912,
            dry_gain := 5368709 / 536870912,
            buffer_l := (buffer_l tiny_capturing)(2 := 0),
            buffer_r := (buffer_r tiny_capturing)(2 := 0), pos_w := 3\<rparr>,
          (5368709 / 536870912, 5368709 / 536870912), [2]) \<and>
   fade_coeff 20 4 2 = Inr 0 \<and> (1::real) * (2 / 4) \<noteq> 0 \<and>
   fade_coeff 20 4 17 = Inr 0 \<and> (1::real) * ((20 - 1 - 17) / 4) \<noteq> 0"
proof -
  have "case run tiny 50 1 (replicate 23 (1, 1)) of
      Inl e \<Rightarrow> False
    | Inr (s', outs, trs) \<Rightarrow>
        listening s' \<and> \<not> looping s' \<and> pos_w s' = 3 \<and>
        buffer_l s' 0 = 0 \<and> buffer_l s' 1 = 0 \<and> buffer_l s' 2 = 0 \<and>
        buffer_r s' 0 = 0 \<and> buffer_r s' 1 = 0 \<and> buffer_r s' 2 = 0"
    by (simp add: tiny_eq eval_defs numeral_eq_Suc)
  moreover have "run_sample 1 1 tiny_capturing (1, 1) =
     Inr (tiny_capturing\<lparr>wet_gain := 5368709 / 536870912,
            dry_gain := 5368709 / 536870912,
            buffer_l := (buffer_l tiny_capturing)(2 := 0),
            buffer_r := (buffer_r tiny_capturing)(2 := 0), pos_w := 3\<rparr>,
          (5368709 / 536870912, 5368709 / 536870912), [2])"
    by (simp add: tiny_capturing_eq eval_defs)
  moreover have "fade_coeff 20 4 2 = Inr 0" "fade_coeff 20 4 17 = Inr 0"
    by (simp_all add: fade_coeff_truncated)
  ultimately show ?thesis by simp
qed

subsection \<open>A block of length 0\<close>

text \<open>
  C2, as amended: \<^verbatim>\<open>run\<close> on an empty block writes no output sample, touches no buffer
  index and leaves every field of the state as it was, except that the flag
  \<open>listening\<close> is set when the trigger control is above 0 and the flag was clear: the
  trigger is latched before the loop over the block, whatever the block length.
\<close>

theorem run_zero_length:
  "run s blend trig [] =
     Inr (if trig > 0 \<and> \<not> listening s then s\<lparr>listening := True\<rparr> else s, [], [])"
  by (simp add: run_def)

text \<open>
  The claim as stated fails on the freshly activated instance with the trigger at 1: the
  empty block changes \<open>listening\<close> from false to true.
\<close>

theorem run_zero_length_counterexample:
  "\<not> listening tiny \<and> run tiny 0 1 [] = Inr (tiny\<lparr>listening := True\<rparr>, [], []) \<and>
   tiny\<lparr>listening := True\<rparr> \<noteq> tiny"
proof -
  have "listening (tiny\<lparr>listening := True\<rparr>) \<noteq> listening tiny" by (simp add: tiny_eq)
  then have "tiny\<lparr>listening := True\<rparr> \<noteq> tiny" by metis
  then show ?thesis by (simp add: run_def tiny_eq)
qed

text \<open>
  The three cases of the amended statement: no trigger, a trigger on an instance that
  already listens, and a trigger on one that does not.
\<close>

theorem run_zero_length_witness:
  "run tiny 0 0 [] = Inr (tiny, [], []) \<and>
   run tiny_capturing 0 1 [] = Inr (tiny_capturing, [], []) \<and>
   run tiny 0 1 [] = Inr (tiny\<lparr>listening := True\<rparr>, [], [])"
  using run_zero_length [of tiny 0 0] run_zero_length [of tiny_capturing 0 1]
    run_zero_length [of tiny 0 1]
  by (simp add: tiny_eq tiny_capturing_eq)

subsection \<open>The crossfade coefficients\<close>

text \<open>
  C3 (the fade-out coefficient at \<open>loopLengthSamples - fadeLengthSamples + o\<close> and the
  fade-in coefficient at \<open>o\<close> add up to 1): the code does not do this. In a loop of 20
  samples with a fade of 4, at offset 1, both coefficients are 0 and so is their sum.
  By \<open>crossfade_sum_zero\<close> this is so at every offset of every fade that fits twice
  into the loop.
\<close>

theorem crossfade_sum_truncated:
  "fade_coeff 20 4 (20 - 4 + 1) = Inr 0 \<and> fade_coeff 20 4 1 = Inr 0 \<and> (0::real) + 0 \<noteq> 1"
  by (simp add: eval_defs)

subsection \<open>Playback\<close>

text \<open>
  One sample of playback with no capture pending, for a read cursor inside the tape and
  a fade no longer than the loop (so that the second index of the crossfade is inside
  the tape too): the wet pair, the indices read, the new state and the output pair.
\<close>

lemma playback_step:
  assumes "looping s" and "\<not> listening s" and "in_tape (pos_r s)"
    and "n_fade_samples s \<le> n_loop_samples s"
  shows
    "let xfade = (pos_r s \<ge> n_loop_samples s - n_fade_samples s);
         p = pos_r s - (n_loop_samples s - n_fade_samples s);
         wet_l = (if xfade then buffer_l s (pos_r s) + buffer_l s p else buffer_l s (pos_r s));
         wet_r = (if xfade then buffer_r s (pos_r s) + buffer_r s p else buffer_r s (pos_r s));
         tr = (if xfade then [pos_r s, p] else [pos_r s]);
         s1 = s\<lparr>wet_gain := smooth tw (wet_gain s), dry_gain := smooth td (dry_gain s)\<rparr>
     in wet_samples s = Inr ((wet_l, wet_r), tr) \<and>
        run_sample td tw s (l, r) =
          Inr (advance_read s1,
               (l * dry_gain s1 + wet_l * wet_gain s1, r * dry_gain s1 + wet_r * wet_gain s1), tr)"
proof (cases "pos_r s \<ge> n_loop_samples s - n_fade_samples s")
  case True
  with assms have "in_tape (pos_r s - (n_loop_samples s - n_fade_samples s))"
    by (simp add: in_tape_def)
  with True assms show ?thesis
    by (simp add: wet_samples_def run_sample_def Let_def)
next
  case False
  with assms show ?thesis
    by (simp add: wet_samples_def run_sample_def Let_def)
qed

text \<open>
  C4: for a sample processed while looping and not listening, the wet sample of each
  channel is \<open>buffer[pos_r] + buffer[pos_r - (n_loop_samples - n_fade_samples)]\<close> when
  \<open>pos_r \<ge> n_loop_samples - n_fade_samples\<close>, and \<open>buffer[pos_r]\<close> alone otherwise; the
  output sample is the input times the smoothed dry gain plus that wet sample times the
  smoothed wet gain. The two hypotheses on the cursor and the sizes keep both reads
  inside the arrays.
\<close>

theorem playback_wet_sample:
  assumes "looping s" and "\<not> listening s" and "in_tape (pos_r s)"
    and "n_fade_samples s \<le> n_loop_samples s"
  shows
    "let xfade = (pos_r s \<ge> n_loop_samples s - n_fade_samples s);
         p = pos_r s - (n_loop_samples s - n_fade_samples s);
         wet_l = (if xfade then buffer_l s (pos_r s) + buffer_l s p else buffer_l s (pos_r s));
         wet_r = (if xfade then buffer_r s (pos_r s) + buffer_r s p else buffer_r s (pos_r s));
         tr = (if xfade then [pos_r s, p] else [pos_r s]);
         s1 = s\<lparr>wet_gain := smooth tw (wet_gain s), dry_gain := smooth td (dry_gain s)\<rparr>
     in wet_samples s = Inr ((wet_l, wet_r), tr) \<and>
        run_sample td tw s (l, r) =
          Inr (advance_read s1,
               (l * dry_gain s1 + wet_l * wet_gain s1, r * dry_gain s1 + wet_r * wet_gain s1), tr)"
  using assms by (rule playback_step)

text \<open>
  On the tape of \<open>tiny_playing\<close>: at read position 17 (the crossfade region starts at 16)
  the wet pair is \<open>(17 + 1, -17 - 1)\<close>, at read position 5 it is \<open>(5, -5)\<close>. Both gains
  go from 0 to the binary32 value of \<^verbatim>\<open>0.01f\<close>, and the output pair is 19 and -17 times
  that gain.
\<close>

theorem playback_wet_sample_witness:
  "looping (tiny_playing\<lparr>pos_r := 17\<rparr>) \<and> \<not> listening (tiny_playing\<lparr>pos_r := 17\<rparr>) \<and>
   in_tape (pos_r (tiny_playing\<lparr>pos_r := 17\<rparr>)) \<and>
   wet_samples (tiny_playing\<lparr>pos_r := 17\<rparr>) = Inr ((18, - 18), [17, 1]) \<and>
   run_sample 1 1 (tiny_playing\<lparr>pos_r := 17\<rparr>) (1, 1) =
     Inr (tiny_playing\<lparr>wet_gain := 5368709 / 536870912, dry_gain := 5368709 / 536870912,
            pos_r := 18\<rparr>,
          (102005471 / 536870912, - 91268053 / 536870912), [17, 1]) \<and>
   wet_samples (tiny_playing\<lparr>pos_r := 5\<rparr>) = Inr ((5, - 5), [5])"
proof -
  have a: "looping (tiny_playing\<lparr>pos_r := 17\<rparr>)" "\<not> listening (tiny_playing\<lparr>pos_r := 17\<rparr>)"
    "in_tape (pos_r (tiny_playing\<lparr>pos_r := 17\<rparr>))"
    "n_fade_samples (tiny_playing\<lparr>pos_r := 17\<rparr>) \<le> n_loop_samples (tiny_playing\<lparr>pos_r := 17\<rparr>)"
    by (simp_all add: tiny_playing_eq in_tape_def MAX_TAPE_LEN_def)
  have b: "looping (tiny_playing\<lparr>pos_r := 5\<rparr>)" "\<not> listening (tiny_playing\<lparr>pos_r := 5\<rparr>)"
    "in_tape (pos_r (tiny_playing\<lparr>pos_r := 5\<rparr>))"
    "n_fade_samples (tiny_playing\<lparr>pos_r := 5\<rparr>) \<le> n_loop_samples (tiny_playing\<lparr>pos_r := 5\<rparr>)"
    by (simp_all add: tiny_playing_eq in_tape_def MAX_TAPE_LEN_def)
  show ?thesis
    using playback_wet_sample [OF a, of 1 1 1 1] playback_wet_sample [OF b, of 1 1 1 1] a
    by (simp add: tiny_playing_eq Let_def advance_read_def smooth_1_0 in_tape_def MAX_TAPE_LEN_def)
qed

text \<open>The step that takes the read cursor to the end of the loop.\<close>

lemma run_sample_wrap:
  assumes "looping s" and "\<not> listening s" and "in_tape (pos_r s)"
    and "n_fade_samples s \<le> n_loop_samples s" and "pos_r s + 1 = n_loop_samples s"
  shows "\<exists>s' out tr. run_sample td tw s x = Inr (s', out, tr) \<and> pos_r s' = n_fade_samples s \<and>
           looping s' \<and> \<not> listening s'"
  using playback_step [OF assms(1-4), of td tw "fst x" "snd x"] assms
  by (auto simp: Let_def advance_read_def)

text \<open>Playback is closed under the loop body, hence under a block without trigger.\<close>

lemma run_sample_playing:
  assumes "playing s"
  shows "\<exists>s' out tr. run_sample td tw s x = Inr (s', out, tr) \<and> playing s' \<and>
           n_fade_samples s' = n_fade_samples s \<and> n_loop_samples s' = n_loop_samples s"
proof -
  from assms have "looping s" "\<not> listening s" "in_tape (pos_r s)" "n_fade_samples s \<le> n_loop_samples s"
    by (simp_all add: playing_def cursors_ok_def in_tape_def)
  from playback_step [OF this, of td tw "fst x" "snd x"] assms
  show ?thesis
    by (auto simp: Let_def playing_def cursors_ok_def advance_read_def)
qed

lemma run_loop_playing:
  "playing s \<Longrightarrow>
     \<exists>s' outs trs. run_loop td tw s xs = Inr (s', outs, trs) \<and> playing s' \<and>
       n_fade_samples s' = n_fade_samples s \<and> n_loop_samples s' = n_loop_samples s"
proof (induction xs arbitrary: s)
  case Nil
  then show ?case by simp
next
  case (Cons x xs)
  from run_sample_playing [OF Cons.prems, of td tw x] obtain s1 out tr where
    one: "run_sample td tw s x = Inr (s1, out, tr)" and p1: "playing s1" and
    sz1: "n_fade_samples s1 = n_fade_samples s" "n_loop_samples s1 = n_loop_samples s"
    by blast
  from Cons.IH [OF p1] obtain s' outs trs where
    "run_loop td tw s1 xs = Inr (s', outs, trs)" "playing s'"
    "n_fade_samples s' = n_fade_samples s1" "n_loop_samples s' = n_loop_samples s1"
    by blast
  with one sz1 show ?case by auto
qed

text \<open>
  C5: during playback with no capture pending (looping, not listening), the step that
  increments the read cursor to \<open>n_loop_samples\<close> sets it to \<open>n_fade_samples\<close>; the
  instance keeps looping. From then on, as long as no trigger arrives, a block of any
  length leaves the read cursor in \<open>[n_fade_samples, n_loop_samples)\<close>: the first
  \<open>n_fade_samples\<close> positions are never the read position again.
\<close>

theorem read_cursor_wrap:
  "(looping s \<and> \<not> listening s \<and> in_tape (pos_r s) \<and> n_fade_samples s \<le> n_loop_samples s \<and>
    pos_r s + 1 = n_loop_samples s \<longrightarrow>
      (\<exists>s' out tr. run_sample td tw s x = Inr (s', out, tr) \<and> pos_r s' = n_fade_samples s \<and>
         looping s' \<and> \<not> listening s')) \<and>
   (playing p \<and> trig \<le> 0 \<longrightarrow>
      (\<exists>p' outs trs. run p blend trig ins = Inr (p', outs, trs) \<and> playing p' \<and>
         n_fade_samples p \<le> pos_r p' \<and> pos_r p' < n_loop_samples p))"
proof (intro conjI impI)
  assume "looping s \<and> \<not> listening s \<and> in_tape (pos_r s) \<and> n_fade_samples s \<le> n_loop_samples s \<and>
    pos_r s + 1 = n_loop_samples s"
  then show "\<exists>s' out tr. run_sample td tw s x = Inr (s', out, tr) \<and> pos_r s' = n_fade_samples s \<and>
         looping s' \<and> \<not> listening s'"
    using run_sample_wrap [of s td tw x] by blast
next
  assume a: "playing p \<and> trig \<le> 0"
  then have "run p blend trig ins = run_loop (fst (target_gains blend)) (snd (target_gains blend)) p ins"
    by (simp add: run_def)
  with run_loop_playing [of p "fst (target_gains blend)" "snd (target_gains blend)" ins] a
  show "\<exists>p' outs trs. run p blend trig ins = Inr (p', outs, trs) \<and> playing p' \<and>
         n_fade_samples p \<le> pos_r p' \<and> pos_r p' < n_loop_samples p"
    by (auto simp: playing_def cursors_ok_def)
qed

text \<open>
  On \<open>tiny_playing\<close> at read position 19, the last of the loop: one sample reads the
  positions 19 and 3 and sets the cursor to 4; the next one reads position 4.
\<close>

theorem read_cursor_wrap_witness:
  "looping (tiny_playing\<lparr>pos_r := 19\<rparr>) \<and> \<not> listening (tiny_playing\<lparr>pos_r := 19\<rparr>) \<and>
   in_tape (pos_r (tiny_playing\<lparr>pos_r := 19\<rparr>)) \<and>
   pos_r (tiny_playing\<lparr>pos_r := 19\<rparr>) + 1 = n_loop_samples (tiny_playing\<lparr>pos_r := 19\<rparr>) \<and>
   run_sample 1 0 (tiny_playing\<lparr>pos_r := 19\<rparr>) (0, 0) =
     Inr (tiny_playing\<lparr>dry_gain := 5368709 / 536870912, pos_r := 4\<rparr>, (0, 0), [19, 3]) \<and>
   playing (tiny_playing\<lparr>pos_r := 19\<rparr>) \<and>
   run (tiny_playing\<lparr>pos_r := 19\<rparr>) 0 0 [(0, 0), (0, 0)] =
     Inr (tiny_playing\<lparr>dry_gain := 10683731 / 536870912, pos_r := 5\<rparr>, [(0, 0), (0, 0)], [19, 3, 4])"
proof -
  let ?s = "tiny_playing\<lparr>pos_r := 19\<rparr>"
  have a: "looping ?s \<and> \<not> listening ?s \<and> in_tape (pos_r ?s) \<and>
      n_fade_samples ?s \<le> n_loop_samples ?s \<and> pos_r ?s + 1 = n_loop_samples ?s"
    and b: "playing ?s \<and> (0::real) \<le> 0"
    by (simp_all add: tiny_playing_eq playing_def cursors_ok_def in_tape_def MAX_TAPE_LEN_def)
  have c: "run_sample 1 0 ?s (0, 0) =
     Inr (tiny_playing\<lparr>dry_gain := 5368709 / 536870912, pos_r := 4\<rparr>, (0, 0), [19, 3])"
    by (simp add: tiny_playing_eq eval_defs)
  have d: "run ?s 0 0 [(0, 0), (0, 0)] =
     Inr (tiny_playing\<lparr>dry_gain := 10683731 / 536870912, pos_r := 5\<rparr>, [(0, 0), (0, 0)], [19, 3, 4])"
    by (simp add: tiny_playing_eq eval_defs)
  show ?thesis
    using read_cursor_wrap [of ?s 1 0 "(0, 0)" ?s 0 0 "[(0, 0), (0, 0)]"] a b c d by simp
qed

subsection \<open>The gain targets\<close>

text \<open>
  C6: the gain targets of a block follow the piecewise law of the blend control:
  blend 0 gives dry 1 and wet 0; a blend strictly between 0 and 50 gives dry 1 and wet
  \<open>10 powr ((blend - 50) * 0.04)\<close>; blend 50 gives dry 1 and wet 1; a blend strictly
  between 50 and 100 gives wet 1 and dry \<open>10 powr ((blend - 50) * - 0.04)\<close>; blend 100
  gives wet 1 and dry 0; every other value (below 0 or above 100) gives the default dry 1
  and wet 0. The computation of the targets has no failing branch.
\<close>

theorem target_gains_law:
  "(b = 0 \<longrightarrow> target_gains b = (1, 0)) \<and>
   (0 < b \<and> b < 50 \<longrightarrow> target_gains b = (1, 10 powr ((b - 50) * 0.04))) \<and>
   (b = 50 \<longrightarrow> target_gains b = (1, 1)) \<and>
   (50 < b \<and> b < 100 \<longrightarrow> target_gains b = (10 powr ((b - 50) * - 0.04), 1)) \<and>
   (b = 100 \<longrightarrow> target_gains b = (0, 1)) \<and>
   (b < 0 \<or> 100 < b \<longrightarrow> target_gains b = (1, 0))"
  by (simp add: target_gains_def)

text \<open>The blend values 0, 25, 50, 75, 100 and two values outside the range.\<close>

theorem target_gains_law_witness:
  "target_gains 0 = (1, 0) \<and> target_gains 25 = (1, 1 / 10) \<and> target_gains 50 = (1, 1) \<and>
   target_gains 75 = (1 / 10, 1) \<and> target_gains 100 = (0, 1) \<and>
   target_gains (- 3) = (1, 0) \<and> target_gains 120 = (1, 0)"
  using target_gains_law [of 0] target_gains_law [of 25] target_gains_law [of 50]
    target_gains_law [of 75] target_gains_law [of 100] target_gains_law [of "- 3"]
    target_gains_law [of 120]
  by (simp add: powr_neg_one)

subsection \<open>Gain smoothing\<close>

text \<open>
  No branch of the loop body touches the gains after the smoothing step, so after a block
  each gain is the iterate of that step.
\<close>

lemma capture_gains:
  "capture s l r = Inr (s', tr) \<Longrightarrow> dry_gain s' = dry_gain s \<and> wet_gain s' = wet_gain s"
  by (auto simp: capture_def split: if_splits sum.splits)

lemma advance_read_gains:
  "dry_gain (advance_read s) = dry_gain s \<and> wet_gain (advance_read s) = wet_gain s"
  by (simp add: advance_read_def Let_def)

lemma run_sample_gains:
  "run_sample td tw s x = Inr (s', out, tr) \<Longrightarrow>
     dry_gain s' = smooth td (dry_gain s) \<and> wet_gain s' = smooth tw (wet_gain s)"
  by (auto simp: run_sample_def Let_def advance_read_gains dest!: capture_gains
      split: if_splits sum.splits prod.splits)

lemma run_loop_gains:
  "run_loop td tw s xs = Inr (s', outs, trs) \<Longrightarrow>
     dry_gain s' = (smooth td ^^ length xs) (dry_gain s) \<and>
     wet_gain s' = (smooth tw ^^ length xs) (wet_gain s)"
proof (induction xs arbitrary: s outs trs)
  case Nil
  then show ?case by simp
next
  case (Cons x xs)
  from Cons.prems obtain s1 out tr outs' trs' where
    one: "run_sample td tw s x = Inr (s1, out, tr)" and
    rest: "run_loop td tw s1 xs = Inr (s', outs', trs')"
    by (auto split: sum.splits prod.splits)
  from Cons.IH [OF rest] run_sample_gains [OF one] show ?case
    by (simp add: funpow_swap1)
qed

lemma run_gains:
  assumes "run s blend trig ins = Inr (s', outs, trs)"
  shows "dry_gain s' = (smooth (fst (target_gains blend)) ^^ length ins) (dry_gain s) \<and>
         wet_gain s' = (smooth (snd (target_gains blend)) ^^ length ins) (wet_gain s)"
  using run_loop_gains [of "fst (target_gains blend)" "snd (target_gains blend)" _ ins s' outs trs] assms
  by (auto simp: run_def split: if_splits)

text \<open>
  One step moves the gain to \<open>target + 0.99 * (gain - target)\<close> up to the rounding of the
  two literals, of the two products and of the sum.
\<close>

lemma smooth_contracts:
  "\<bar>smooth t g - t - 99 / 100 * (g - t)\<bar> \<le> (\<bar>t\<bar> + \<bar>g\<bar>) / 2 ^ 22 + 1 / 2 ^ 148"
proof -
  define a :: real where "a = 5368709 / 536870912"
  define b :: real where "b = 4152361 / 4194304"
  define x1 where "x1 = fl32 (t * a)"
  define x2 where "x2 = fl32 (g * b)"
  define y where "y = fl32 (x1 + x2)"
  define T where "T = \<bar>t\<bar>"
  define G where "G = \<bar>g\<bar>"
  define E1 where "E1 = \<bar>x1 - t * a\<bar>"
  define E2 where "E2 = \<bar>x2 - g * b\<bar>"
  define E3 where "E3 = \<bar>y - (x1 + x2)\<bar>"
  define D1 where "D1 = \<bar>t * a - t / 100\<bar>"
  define D2 where "D2 = \<bar>g * b - g * (99 / 100)\<bar>"
  define S where "S = \<bar>x1 + x2\<bar>"
  define eta :: real where "eta = 1 / 2 ^ 150"
  have y: "smooth t g = y"
    by (simp add: smooth_def c01f c99f y_def x1_def x2_def a_def b_def)
  have pos: "0 \<le> T" "0 \<le> G" "0 \<le> eta" by (simp_all add: T_def G_def eta_def)
  have ta: "\<bar>t * a\<bar> = T * (5368709 / 536870912)" and gb: "\<bar>g * b\<bar> = G * (4152361 / 4194304)"
    by (simp_all add: abs_mult a_def b_def T_def G_def)
  have e1: "E1 \<le> T * (5368709 / 536870912) / 2 ^ 24 + eta"
    using fl32_error [of "t * a"] by (simp only: x1_def ta E1_def eta_def)
  have e2: "E2 \<le> G * (4152361 / 4194304) / 2 ^ 24 + eta"
    using fl32_error [of "g * b"] by (simp only: x2_def gb E2_def eta_def)
  have e3: "E3 \<le> S / 2 ^ 24 + eta"
    using fl32_error [of "x1 + x2"] by (simp only: y_def E3_def S_def eta_def)
  have "\<bar>x1\<bar> \<le> \<bar>t * a\<bar> + E1" unfolding E1_def by linarith
  moreover have "\<bar>x2\<bar> \<le> \<bar>g * b\<bar> + E2" unfolding E2_def by linarith
  moreover have "S \<le> \<bar>x1\<bar> + \<bar>x2\<bar>" unfolding S_def by (rule abs_triangle_ineq)
  ultimately have s: "S \<le> T * (5368709 / 536870912) + E1 + (G * (4152361 / 4194304) + E2)"
    unfolding ta gb by linarith
  have d1: "D1 \<le> T * (1 / 2 ^ 32)"
  proof -
    have "t * a - t / 100 = t * (a - 1 / 100)" by (simp add: algebra_simps)
    then have "D1 = T * \<bar>a - 1 / 100\<bar>" by (simp only: abs_mult D1_def T_def)
    also have "\<dots> \<le> T * (1 / 2 ^ 32)"
      using pos by (intro mult_left_mono) (simp_all add: a_def)
    finally show ?thesis .
  qed
  have d2: "D2 \<le> G * (1 / 2 ^ 26)"
  proof -
    have "g * b - g * (99 / 100) = g * (b - 99 / 100)" by (simp add: algebra_simps)
    then have "D2 = G * \<bar>b - 99 / 100\<bar>" by (simp only: abs_mult D2_def G_def)
    also have "\<dots> \<le> G * (1 / 2 ^ 26)"
      using pos by (intro mult_left_mono) (simp_all add: b_def)
    finally show ?thesis .
  qed
  have split: "y - t - 99 / 100 * (g - t) =
      (y - (x1 + x2)) + (x1 - t * a) + (x2 - g * b) + (t * a - t / 100) + (g * b - g * (99 / 100))"
    by (simp add: field_simps)
  have "\<bar>y - t - 99 / 100 * (g - t)\<bar> \<le> E3 + E1 + E2 + D1 + D2"
    unfolding split E1_def E2_def E3_def D1_def D2_def by linarith
  also have "\<dots> \<le> (T + G) / 2 ^ 22 + 4 * eta"
  proof -
    have h1: "E1 \<le> T / 1073741824 + eta" using e1 pos by simp
    have h2: "E2 \<le> G / 16777216 + eta" using e2 pos by simp
    have s': "S \<le> T * (5368709 / 536870912) + E1 + (G * (4152361 / 4194304) + E2)" by (rule s)
    have hs: "S \<le> T + 2 * G + 2 * eta" using s' h1 h2 pos by argo
    have e3': "E3 \<le> S / 16777216 + eta" using e3 by simp
    have h3: "E3 \<le> (T + 2 * G) / 16777216 + 2 * eta" using e3' hs pos by argo
    have h4: "D1 \<le> T / 4294967296" using d1 by simp
    have h5: "D2 \<le> G / 67108864" using d2 by simp
    have "E3 + E1 + E2 + D1 + D2 \<le> (T + G) / 4194304 + 4 * eta"
      using h1 h2 h3 h4 h5 pos by argo
    then show ?thesis by simp
  qed
  also have "4 * eta = 1 / 2 ^ 148" by (simp add: eta_def)
  finally show ?thesis by (simp only: y T_def G_def)
qed

text \<open>
  The ramp from 0 towards the target 1, in eight stretches of 157 samples: after 1256
  samples the gain is \<open>8388583 / 8388608\<close>, and there it stays.
\<close>

lemma funpow_numeral_step: "(f ^^ numeral k) x = (f ^^ pred_numeral k) (f x)"
  by (simp add: numeral_eq_Suc funpow_swap1)

lemma smooth_one:
  "smooth 1 g = fl32 (5368709 / 536870912 + fl32 (g * (4152361 / 4194304)))"
proof -
  have c: "fl32 (5368709 / 536870912) = 5368709 / 536870912"
    using fl32_dyadic [of 5368709 29] by simp
  show ?thesis by (simp only: smooth_def c01f c99f mult_1 c)
qed

lemmas ramp_eval = funpow_numeral_step smooth_one fl32_b1 fl32_b2 fl32_b3 fl32_b4 fl32_b5
  fl32_b6 fl32_b7 fl32_b8 rne_def

lemma ramp_1: "(smooth 1 ^^ 157) 0 = 3328567 / 4194304"
  by (simp add: ramp_eval)
lemma ramp_2: "(smooth 1 ^^ 157) (3328567 / 4194304) = 16062437 / 16777216"
  by (simp add: ramp_eval)
lemma ramp_3: "(smooth 1 ^^ 157) (16062437 / 16777216) = 1039355 / 1048576"
  by (simp add: ramp_eval)
lemma ramp_4: "(smooth 1 ^^ 157) (1039355 / 1048576) = 4186691 / 4194304"
  by (simp add: ramp_eval)
lemma ramp_5: "(smooth 1 ^^ 157) (4186691 / 4194304) = 4192733 / 4194304"
  by (simp add: ramp_eval)
lemma ramp_6: "(smooth 1 ^^ 157) (4192733 / 4194304) = 16775917 / 16777216"
  by (simp add: ramp_eval)
lemma ramp_7: "(smooth 1 ^^ 157) (16775917 / 16777216) = 16776947 / 16777216"
  by (simp add: ramp_eval)
lemma ramp_8: "(smooth 1 ^^ 157) (16776947 / 16777216) = 8388583 / 8388608"
  by (simp add: ramp_eval)

lemma ramp: "(smooth 1 ^^ 1256) 0 = 8388583 / 8388608"
proof -
  have "(1256 :: nat) = 157 + (157 + (157 + (157 + (157 + (157 + (157 + 157))))))" by simp
  then have "(smooth 1 ^^ 1256) 0 =
    (smooth 1 ^^ 157) ((smooth 1 ^^ 157) ((smooth 1 ^^ 157) ((smooth 1 ^^ 157)
      ((smooth 1 ^^ 157) ((smooth 1 ^^ 157) ((smooth 1 ^^ 157) ((smooth 1 ^^ 157) 0)))))))"
    by (simp only: funpow_add o_apply)
  then show ?thesis
    by (simp only: ramp_1 ramp_2 ramp_3 ramp_4 ramp_5 ramp_6 ramp_7 ramp_8)
qed

lemma stalled: "(smooth 1 ^^ n) (8388583 / 8388608) = 8388583 / 8388608"
  by (induction n) (simp_all only: funpow.simps o_apply id_apply smooth_stall)

lemma target_gains_50: "target_gains 50 = (1, 1)"
  by (simp add: target_gains_def)

text \<open>
  C7, as amended: every iteration of the loop body, whatever the phase of the state
  machine, replaces both gains by \<^verbatim>\<open>target * 0.01f + gain * 0.99f\<close> evaluated in binary32,
  so after a block of \<open>n\<close> samples each gain is the \<open>n\<close>-fold iterate of that step. One
  step multiplies the distance to the target by 0.99 up to a rounding term of at most
  \<open>(\<bar>target\<bar> + \<bar>gain\<bar>) / 2 ^ 22 + 1 / 2 ^ 148\<close>. The distance after \<open>n\<close> samples is not
  exactly \<open>0.99 ^ n\<close> times the initial one, and it need not tend to 0.
\<close>

theorem gain_smoothing:
  "(run_sample td tw s x = Inr (s1, out, tr) \<longrightarrow>
      dry_gain s1 = fl32 (fl32 (td * fl32 (1 / 100)) + fl32 (dry_gain s * fl32 (99 / 100))) \<and>
      wet_gain s1 = fl32 (fl32 (tw * fl32 (1 / 100)) + fl32 (wet_gain s * fl32 (99 / 100)))) \<and>
   (run s' blend trig ins = Inr (s2, outs, trs) \<longrightarrow>
      dry_gain s2 = (smooth (fst (target_gains blend)) ^^ length ins) (dry_gain s') \<and>
      wet_gain s2 = (smooth (snd (target_gains blend)) ^^ length ins) (wet_gain s')) \<and>
   \<bar>smooth t g - t - 99 / 100 * (g - t)\<bar> \<le> (\<bar>t\<bar> + \<bar>g\<bar>) / 2 ^ 22 + 1 / 2 ^ 148"
proof (intro conjI impI)
  assume "run_sample td tw s x = Inr (s1, out, tr)"
  from run_sample_gains [OF this]
  show "dry_gain s1 = fl32 (fl32 (td * fl32 (1 / 100)) + fl32 (dry_gain s * fl32 (99 / 100)))"
    and "wet_gain s1 = fl32 (fl32 (tw * fl32 (1 / 100)) + fl32 (wet_gain s * fl32 (99 / 100)))"
    by (simp_all only: smooth_def)
next
  assume r: "run s' blend trig ins = Inr (s2, outs, trs)"
  from run_gains [OF r]
  show "dry_gain s2 = (smooth (fst (target_gains blend)) ^^ length ins) (dry_gain s')"
    and "wet_gain s2 = (smooth (snd (target_gains blend)) ^^ length ins) (wet_gain s')"
    by simp_all
next
  show "\<bar>smooth t g - t - 99 / 100 * (g - t)\<bar> \<le> (\<bar>t\<bar> + \<bar>g\<bar>) / 2 ^ 22 + 1 / 2 ^ 148"
    by (rule smooth_contracts)
qed

text \<open>
  On the freshly activated instance with blend 50 (both targets 1): one sample takes
  both gains from 0 to the binary32 value of \<^verbatim>\<open>0.01f\<close>, two samples to
  \<open>10683731 / 536870912\<close>.
\<close>

theorem gain_smoothing_witness:
  "run_sample 1 1 tiny (1, 1) =
     Inr (tiny\<lparr>wet_gain := 5368709 / 536870912, dry_gain := 5368709 / 536870912, pos_r := 1\<rparr>,
          (5368709 / 536870912, 5368709 / 536870912), [0]) \<and>
   smooth 1 0 = 5368709 / 536870912 \<and>
   run tiny 50 0 [(1, 1), (1, 1)] =
     Inr (tiny\<lparr>wet_gain := 10683731 / 536870912, dry_gain := 10683731 / 536870912, pos_r := 2\<rparr>,
          [(5368709 / 536870912, 5368709 / 536870912),
           (10683731 / 536870912, 10683731 / 536870912)], [0, 1]) \<and>
   (smooth 1 ^^ 2) 0 = 10683731 / 536870912 \<and>
   \<bar>5368709 / 536870912 - 1 - 99 / 100 * (0 - 1)\<bar> \<le> ((1::real) + 0) / 2 ^ 22 + 1 / 2 ^ 148"
proof -
  have one: "run_sample 1 1 tiny (1, 1) =
     Inr (tiny\<lparr>wet_gain := 5368709 / 536870912, dry_gain := 5368709 / 536870912, pos_r := 1\<rparr>,
          (5368709 / 536870912, 5368709 / 536870912), [0])"
    by (simp add: tiny_eq eval_defs)
  have two: "run tiny 50 0 [(1, 1), (1, 1)] =
     Inr (tiny\<lparr>wet_gain := 10683731 / 536870912, dry_gain := 10683731 / 536870912, pos_r := 2\<rparr>,
          [(5368709 / 536870912, 5368709 / 536870912),
           (10683731 / 536870912, 10683731 / 536870912)], [0, 1])"
    by (simp add: tiny_eq eval_defs)
  have it: "(smooth 1 ^^ 2) 0 = 10683731 / 536870912"
    by (simp add: numeral_2_eq_2 smooth_1_0 smooth_1_1)
  from gain_smoothing [of 1 1 tiny "(1, 1)"
      "tiny\<lparr>wet_gain := 5368709 / 536870912, dry_gain := 5368709 / 536870912, pos_r := 1\<rparr>"
      "(5368709 / 536870912, 5368709 / 536870912)" "[0]" tiny 50 0 "[(1, 1), (1, 1)]"
      "tiny\<lparr>wet_gain := 10683731 / 536870912, dry_gain := 10683731 / 536870912, pos_r := 2\<rparr>"
      "[(5368709 / 536870912, 5368709 / 536870912), (10683731 / 536870912, 10683731 / 536870912)]"
      "[0, 1]" 1 0] one two
  have step: "dry_gain (tiny\<lparr>wet_gain := 5368709 / 536870912, dry_gain := 5368709 / 536870912,
        pos_r := 1\<rparr>) = fl32 (fl32 (1 * fl32 (1 / 100)) + fl32 (dry_gain tiny * fl32 (99 / 100)))"
    and block: "dry_gain (tiny\<lparr>wet_gain := 10683731 / 536870912, dry_gain := 10683731 / 536870912,
        pos_r := 2\<rparr>) = (smooth (fst (target_gains 50)) ^^ length [(1, 1), (1::real, 1::real)]) (dry_gain tiny)"
    and bound: "\<bar>smooth 1 0 - 1 - 99 / 100 * (0 - 1)\<bar> \<le> (\<bar>1::real\<bar> + \<bar>0\<bar>) / 2 ^ 22 + 1 / 2 ^ 148"
    by blast+
  from bound
  have "\<bar>5368709 / 536870912 - 1 - 99 / 100 * (0 - 1)\<bar> \<le> ((1::real) + 0) / 2 ^ 22 + 1 / 2 ^ 148"
    by (simp only: smooth_1_0 abs_one abs_zero)
  with one two it smooth_1_0 show ?thesis by blast
qed

text \<open>
  The claim as stated fails on the freshly activated instance with blend 50. After one
  sample the distance to the target is \<open>1 - 5368709 / 536870912\<close>, which is not 0.99.
  After 1256 samples both gains are \<open>8388583 / 8388608\<close>, and 1000 samples later they
  still are: the distance stays at \<open>25 / 8388608\<close>.
\<close>

theorem gain_smoothing_counterexample:
  "fst (target_gains 50) = 1 \<and> snd (target_gains 50) = 1 \<and>
   dry_gain tiny = 0 \<and> wet_gain tiny = 0 \<and>
   run tiny 50 0 [(0, 0)] =
     Inr (tiny\<lparr>wet_gain := 5368709 / 536870912, dry_gain := 5368709 / 536870912, pos_r := 1\<rparr>,
          [(0, 0)], [0]) \<and>
   \<bar>5368709 / 536870912 - 1\<bar> \<noteq> 0.99 ^ 1 * \<bar>0 - (1::real)\<bar> \<and>
   (case run tiny 50 0 (replicate 1256 (0, 0)) of
      Inl e \<Rightarrow> False
    | Inr (s', outs, trs) \<Rightarrow>
        dry_gain s' = 8388583 / 8388608 \<and> wet_gain s' = 8388583 / 8388608 \<and>
        (case run s' 50 0 (replicate 1000 (0, 0)) of
           Inl e \<Rightarrow> False
         | Inr (s'', outs', trs') \<Rightarrow>
             dry_gain s'' = 8388583 / 8388608 \<and> wet_gain s'' = 8388583 / 8388608)) \<and>
   \<bar>8388583 / 8388608 - (1::real)\<bar> = 25 / 8388608"
proof -
  have first: "run tiny 50 0 [(0, 0)] =
     Inr (tiny\<lparr>wet_gain := 5368709 / 536870912, dry_gain := 5368709 / 536870912, pos_r := 1\<rparr>,
          [(0, 0)], [0])"
    by (simp add: tiny_eq eval_defs)
  from run_ok [OF cursors_ok_tiny, of 50 0 "replicate 1256 (0, 0)"] obtain s' outs trs where
    r1: "run tiny 50 0 (replicate 1256 (0, 0)) = Inr (s', outs, trs)" and ok: "cursors_ok s'"
    by blast
  from run_gains [OF r1] have g1: "dry_gain s' = 8388583 / 8388608" "wet_gain s' = 8388583 / 8388608"
    by (simp_all add: target_gains_50 tiny_eq ramp)
  from run_ok [OF ok, of 50 0 "replicate 1000 (0, 0)"] obtain s'' outs' trs' where
    r2: "run s' 50 0 (replicate 1000 (0, 0)) = Inr (s'', outs', trs')"
    by blast
  from run_gains [OF r2] have g2: "dry_gain s'' = 8388583 / 8388608" "wet_gain s'' = 8388583 / 8388608"
    by (simp_all only: target_gains_50 fst_conv snd_conv g1 stalled)
  have stall: "case run tiny 50 0 (replicate 1256 (0, 0)) of
      Inl e \<Rightarrow> False
    | Inr (s', outs, trs) \<Rightarrow>
        dry_gain s' = 8388583 / 8388608 \<and> wet_gain s' = 8388583 / 8388608 \<and>
        (case run s' 50 0 (replicate 1000 (0, 0)) of
           Inl e \<Rightarrow> False
         | Inr (s'', outs', trs') \<Rightarrow>
             dry_gain s'' = 8388583 / 8388608 \<and> wet_gain s'' = 8388583 / 8388608)"
    by (simp add: r1 r2 g1 g2)
  show ?thesis
    using first stall by (simp add: target_gains_50 tiny_eq)
qed

subsection \<open>A fade length of 0\<close>

text \<open>
  With a fade length of 0 and a write cursor that is not negative, neither test that
  leads to a division succeeds: \<open>pos_w < 0\<close> is false, and \<open>pos_w \<ge> n_loop_samples\<close>
  is false where the coefficient is computed. Both facts are kept by every step.
\<close>

lemma fade_coeff_zero_fade:
  "0 \<le> w \<Longrightarrow> w < n_loop \<Longrightarrow> fade_coeff n_loop 0 w = Inr 1"
  by (simp add: fade_coeff_def)

lemma capture_zero_fade:
  assumes "n_fade_samples s = 0" and "0 \<le> pos_w s"
  shows "capture s l r \<noteq> Inl DivByZero \<and>
         (\<forall>s' tr. capture s l r = Inr (s', tr) \<longrightarrow> n_fade_samples s' = 0 \<and> 0 \<le> pos_w s')"
  using assms fade_coeff_zero_fade [of "pos_w s" "n_loop_samples s"]
  by (auto simp: capture_def)

lemma run_sample_zero_fade:
  assumes "n_fade_samples s = 0" and "0 \<le> pos_w s"
  shows "run_sample td tw s x \<noteq> Inl DivByZero \<and>
         (\<forall>s' out tr. run_sample td tw s x = Inr (s', out, tr) \<longrightarrow>
            n_fade_samples s' = 0 \<and> 0 \<le> pos_w s')"
proof -
  let ?s = "s\<lparr>wet_gain := smooth tw (wet_gain s), dry_gain := smooth td (dry_gain s)\<rparr>"
  have "n_fade_samples ?s = 0" "0 \<le> pos_w ?s" using assms by simp_all
  from capture_zero_fade [OF this, of "fst x" "snd x"] assms show ?thesis
    by (auto simp: run_sample_def Let_def wet_samples_def advance_read_def
        split: sum.splits prod.splits if_splits)
qed

lemma run_loop_zero_fade:
  "n_fade_samples s = 0 \<Longrightarrow> 0 \<le> pos_w s \<Longrightarrow>
     run_loop td tw s xs \<noteq> Inl DivByZero \<and>
     (\<forall>s' outs trs. run_loop td tw s xs = Inr (s', outs, trs) \<longrightarrow>
        n_fade_samples s' = 0 \<and> 0 \<le> pos_w s')"
proof (induction xs arbitrary: s)
  case Nil
  then show ?case by simp
next
  case (Cons x xs)
  note one = run_sample_zero_fade [OF Cons.prems, of td tw x]
  show ?case
  proof (cases "run_sample td tw s x")
    case (Inl e)
    with one show ?thesis by simp
  next
    case (Inr res)
    obtain s1 out tr where res: "res = (s1, out, tr)" by (cases res)
    with one Inr have "n_fade_samples s1 = 0" "0 \<le> pos_w s1" by simp_all
    from Cons.IH [OF this] Inr res show ?thesis
      by (auto split: sum.splits)
  qed
qed

text \<open>
  C8: when \<open>n_fade_samples\<close> is 0, the fade coefficient is computed without a division
  by zero, and it is 1: zero fade length means no fade. The write cursor is taken to be
  non-negative, as it is after \<^verbatim>\<open>activate\<close> and after every block (second conjunct); the
  two branch conditions of the coefficient are the guard. No block of any length, from
  such a state, ends in a division by zero.
\<close>

theorem zero_fade_length:
  assumes "n_fade_samples s = 0" and "0 \<le> pos_w s"
  shows "run s blend trig ins \<noteq> Inl DivByZero \<and>
         (\<forall>s' outs trs. run s blend trig ins = Inr (s', outs, trs) \<longrightarrow>
            n_fade_samples s' = 0 \<and> 0 \<le> pos_w s') \<and>
         (pos_w s < n_loop_samples s \<longrightarrow>
            fade_coeff (n_loop_samples s) (n_fade_samples s) (pos_w s) = Inr 1)"
proof -
  define s0 where "s0 = (if trig > 0 \<and> \<not> listening s then s\<lparr>listening := True\<rparr> else s)"
  have "n_fade_samples s0 = 0" "0 \<le> pos_w s0" using assms by (simp_all add: s0_def)
  note loop = run_loop_zero_fade [OF this, of "fst (target_gains blend)" "snd (target_gains blend)" ins]
  have "run s blend trig ins = run_loop (fst (target_gains blend)) (snd (target_gains blend)) s0 ins"
    by (simp add: run_def s0_def)
  with loop assms fade_coeff_zero_fade [of "pos_w s" "n_loop_samples s"] show ?thesis
    by simp
qed

text \<open>
  The capturing instance of sample rate 0.5 (fade 0, loop 2): three input samples are
  processed; the first two are stored as they are, the third ends the capture.
\<close>

theorem zero_fade_length_witness:
  "n_fade_samples no_fade = 0 \<and> 0 \<le> pos_w no_fade \<and> pos_w no_fade < n_loop_samples no_fade \<and>
   fade_coeff (n_loop_samples no_fade) (n_fade_samples no_fade) (pos_w no_fade) = Inr 1 \<and>
   run no_fade 0 0 [(3, 5), (7, 9), (1, 1)] =
     Inr (no_fade\<lparr>dry_gain := 15945603 / 536870912, listening := False, looping := True,
            buffer_l := (buffer_l no_fade)(0 := 3, 1 := 7),
            buffer_r := (buffer_r no_fade)(0 := 5, 1 := 9)\<rparr>,
          [(16106127 / 536870912, 26843545 / 536870912),
           (74786117 / 536870912, 96153579 / 536870912),
           (15945603 / 536870912, 15945603 / 536870912)],
          [0, 1])"
proof -
  have a: "n_fade_samples no_fade = 0" "0 \<le> pos_w no_fade"
    by (simp_all add: no_fade_eq)
  have r: "run no_fade 0 0 [(3, 5), (7, 9), (1, 1)] =
     Inr (no_fade\<lparr>dry_gain := 15945603 / 536870912, listening := False, looping := True,
            buffer_l := (buffer_l no_fade)(0 := 3, 1 := 7),
            buffer_r := (buffer_r no_fade)(0 := 5, 1 := 9)\<rparr>,
          [(16106127 / 536870912, 26843545 / 536870912),
           (74786117 / 536870912, 96153579 / 536870912),
           (15945603 / 536870912, 15945603 / 536870912)],
          [0, 1])"
    by (simp add: no_fade_eq eval_defs)
  show ?thesis
    using zero_fade_length [OF a, of 0 0 "[(3, 5), (7, 9), (1, 1)]"] a r
    by (simp add: no_fade_eq)
qed

subsection \<open>Construction\<close>

text \<open>
  For a sample rate of magnitude up to \<open>2 ^ 28\<close> all four conversions to \<^verbatim>\<open>int\<close> are
  defined, and the sizes of the instance are the results of the second and the fourth.
\<close>

lemma c_trunc_of_int [simp]: "c_trunc (of_int z) = z"
  by (simp add: c_trunc_def)

lemma c_trunc_abs: "\<bar>real_of_int (c_trunc x)\<bar> \<le> \<bar>x\<bar>"
  unfolding c_trunc_def by (auto; linarith)

lemma to_int_ok:
  "\<bar>x\<bar> \<le> 2147483647 \<Longrightarrow> to_int x = Inr (c_trunc x)"
proof -
  assume "\<bar>x\<bar> \<le> 2147483647"
  with c_trunc_abs [of x] have "\<bar>real_of_int (c_trunc x)\<bar> \<le> 2147483647" by linarith
  then have "- 2147483648 \<le> c_trunc x \<and> c_trunc x \<le> 2147483647" by linarith
  then show ?thesis by (simp add: to_int_def)
qed

lemma fl64_near: "\<bar>x\<bar> \<le> 2 ^ 31 \<Longrightarrow> \<bar>fl64 x - x\<bar> \<le> 1 / 2 ^ 21"
proof -
  assume x: "\<bar>x\<bar> \<le> 2 ^ 31"
  have "(1::real) / 2 ^ 1075 \<le> 1 / 2 ^ 22"
    by (intro divide_left_mono power_increasing) simp_all
  moreover have "\<bar>x\<bar> / 2 ^ 53 \<le> 1 / 2 ^ 22" using x by (simp add: field_simps)
  moreover have "(1::real) / 2 ^ 22 + 1 / 2 ^ 22 = 1 / 2 ^ 21" by simp
  ultimately show ?thesis using fl64_error [of x] by linarith
qed

lemma instantiate_in_range:
  assumes "\<bar>r\<bar> \<le> 2 ^ 28"
  shows "instantiate True r =
     Inr (Some (zeroed\<lparr>rate := r, n_fade_samples := c_trunc r,
                         n_loop_samples := c_trunc (fl64 (5 * r))\<rparr>))"
proof -
  have r: "\<bar>r\<bar> \<le> 268435456" using assms by simp
  have near: "\<bar>x\<bar> \<le> 2147483648 \<Longrightarrow> \<bar>fl64 x - x\<bar> \<le> 1" for x
    using fl64_near [of x] by simp
  have a: "\<bar>fl32 (1 / 5) * r\<bar> \<le> 268435456"
    using r by (simp add: c02f abs_mult)
  from near [of "fl32 (1 / 5) * r"] a
  have "\<bar>fl64 (fl32 (1 / 5) * r)\<bar> \<le> 268435457" by linarith
  then have "\<bar>real_of_int \<lceil>fl64 (fl32 (1 / 5) * r)\<rceil>\<bar> \<le> 2147483647" by linarith
  then have t1: "to_int (of_int \<lceil>fl64 (fl32 (1 / 5) * r)\<rceil>) = Inr \<lceil>fl64 (fl32 (1 / 5) * r)\<rceil>"
    using to_int_ok [of "of_int \<lceil>fl64 (fl32 (1 / 5) * r)\<rceil>"] by simp
  have t2: "to_int r = Inr (c_trunc r)"
    using r by (intro to_int_ok) linarith
  have b: "\<bar>fl32 (1 / 2) * r\<bar> \<le> 268435456"
    using r by (simp add: c05f)
  from near [of "fl32 (1 / 2) * r"] b
  have "\<bar>fl64 (fl32 (1 / 2) * r)\<bar> \<le> 268435457" by linarith
  then have "\<bar>real_of_int \<lceil>fl64 (fl32 (1 / 2) * r)\<rceil>\<bar> \<le> 2147483647" by linarith
  then have t3: "to_int (of_int \<lceil>fl64 (fl32 (1 / 2) * r)\<rceil>) = Inr \<lceil>fl64 (fl32 (1 / 2) * r)\<rceil>"
    using to_int_ok [of "of_int \<lceil>fl64 (fl32 (1 / 2) * r)\<rceil>"] by simp
  have c: "\<bar>5 * r\<bar> \<le> 1342177280" using r by simp
  from near [of "5 * r"] c have "\<bar>fl64 (5 * r)\<bar> \<le> 2147483647" by linarith
  then have t4: "to_int (fl64 (5 * r)) = Inr (c_trunc (fl64 (5 * r)))"
    by (rule to_int_ok)
  show ?thesis
    by (simp add: instantiate_def t1 t2 t3 t4)
qed

lemma instantiate_sizes:
  assumes "instantiate ok r = Inr (Some i)"
  shows "n_fade_samples i = c_trunc r \<and> n_loop_samples i = c_trunc (fl64 (5 * r))"
  using assms
  by (auto simp: instantiate_def to_int_def Let_def split: if_splits sum.splits)

lemma instantiate_never_null: "instantiate ok r \<noteq> Inr None"
  by (auto simp: instantiate_def to_int_def Let_def split: if_splits sum.splits)

text \<open>
  C9, as amended: \<^verbatim>\<open>instantiate\<close> compares nothing with \<open>MAX_TAPE_LEN\<close> and has no exit
  that reports a failure: for no sample rate does it return a \<^verbatim>\<open>NULL\<close> handle. For every
  sample rate of magnitude up to \<open>2 ^ 28\<close>, when the allocation succeeds, it returns an
  instance whose loop length is the binary64 product \<open>5 * rate\<close> and whose fade length is
  \<open>rate\<close>, both truncated to an integer; the loop length of that instance is within
  \<open>MAX_TAPE_LEN\<close> exactly when the product is below 960001.
\<close>

theorem instantiate_no_capacity_check:
  "instantiate ok r \<noteq> Inr None \<and>
   (\<bar>r\<bar> \<le> 2 ^ 28 \<longrightarrow>
      (\<exists>self. instantiate True r = Inr (Some self) \<and>
         n_loop_samples self = c_trunc (fl64 (5 * r)) \<and> n_fade_samples self = c_trunc r \<and>
         (n_loop_samples self \<le> MAX_TAPE_LEN \<longleftrightarrow> fl64 (5 * r) < 960001)))"
proof (intro conjI impI)
  show "instantiate ok r \<noteq> Inr None" by (rule instantiate_never_null)
next
  assume "\<bar>r\<bar> \<le> 2 ^ 28"
  from instantiate_in_range [OF this]
  show "\<exists>self. instantiate True r = Inr (Some self) \<and>
         n_loop_samples self = c_trunc (fl64 (5 * r)) \<and> n_fade_samples self = c_trunc r \<and>
         (n_loop_samples self \<le> MAX_TAPE_LEN \<longleftrightarrow> fl64 (5 * r) < 960001)"
    by (simp add: c_trunc_def MAX_TAPE_LEN_def floor_le_iff ceiling_le_iff)
qed

text \<open>The sample rates 200000 and 48000.\<close>

lemma instantiate_200000:
  "instantiate True 200000 =
     Inr (Some (zeroed\<lparr>rate := 200000, n_fade_samples := 200000, n_loop_samples := 1000000\<rparr>))"
proof -
  have "fl64 (5 * 200000) = 1000000" using fl64_dyadic [of 1000000 0] by simp
  then show ?thesis
    using instantiate_in_range [of 200000] by (simp add: c_trunc_def)
qed

lemma instantiate_48000:
  "instantiate True 48000 =
     Inr (Some (zeroed\<lparr>rate := 48000, n_fade_samples := 48000, n_loop_samples := 240000\<rparr>))"
proof -
  have "fl64 (5 * 48000) = 240000" using fl64_dyadic [of 240000 0] by simp
  then show ?thesis
    using instantiate_in_range [of 48000] by (simp add: c_trunc_def)
qed

text \<open>
  The claim as stated fails at the sample rate 200000: the loop length is 1000000, above
  \<open>MAX_TAPE_LEN\<close>, and an instance is returned.
\<close>

theorem instantiate_counterexample:
  "MAX_TAPE_LEN < c_trunc (fl64 (5 * 200000)) \<and>
   instantiate True 200000 =
     Inr (Some (zeroed\<lparr>rate := 200000, n_fade_samples := 200000, n_loop_samples := 1000000\<rparr>))"
proof -
  have "fl64 (5 * 200000) = 1000000" using fl64_dyadic [of 1000000 0] by simp
  then show ?thesis by (simp add: instantiate_200000 c_trunc_def MAX_TAPE_LEN_def)
qed

text \<open>
  The sample rates 200000 (loop too long) and 48000 (loop of 240000 samples), and a
  failed allocation, which is a dereferenced \<^verbatim>\<open>NULL\<close> and not a reported failure.
\<close>

theorem instantiate_no_capacity_check_witness:
  "\<bar>200000 :: real\<bar> \<le> 2 ^ 28 \<and>
   instantiate True 200000 =
     Inr (Some (zeroed\<lparr>rate := 200000, n_fade_samples := 200000, n_loop_samples := 1000000\<rparr>)) \<and>
   \<not> (1000000 \<le> MAX_TAPE_LEN) \<and>
   instantiate True 48000 =
     Inr (Some (zeroed\<lparr>rate := 48000, n_fade_samples := 48000, n_loop_samples := 240000\<rparr>)) \<and>
   240000 \<le> MAX_TAPE_LEN \<and>
   instantiate False 48000 = Inl NullDeref"
  using instantiate_no_capacity_check [of True 200000] instantiate_200000 instantiate_48000
  by (simp add: MAX_TAPE_LEN_def instantiate_def)

text \<open>
  The product is rounded before it is truncated: for the \<^verbatim>\<open>double\<close> nearest to 0.6 the
  exact product is below 3, the binary64 product is 3, and so is the loop length.
\<close>

lemma fl64_of_product_0_6:
  "fl64 (27021597764222975 / 9007199254740992) = 3"
proof -
  define x :: real where "x = 27021597764222975 / 9007199254740992"
  have a: "2 powr of_int 1 \<le> \<bar>x\<bar>" by (simp add: x_def)
  have b: "\<bar>x\<bar> < 2 powr of_int (1 + 1)" by (simp add: x_def)
  have u: "2 powr real_of_int (1 - 53 + 1) = (1 :: real) / 2 ^ 51"
    using pow2_neg [of 51] by simp
  from fp_round_eval [OF a b, of "- 1022" 53]
  have "fl64 x = of_int (rne (x / 2 powr of_int (1 - 53 + 1))) * 2 powr of_int (1 - 53 + 1)"
    by (simp add: fl64_def)
  then have "fl64 x = of_int (rne (x / (1 / 2 ^ 51))) * (1 / 2 ^ 51)"
    by (simp only: u)
  then show ?thesis unfolding x_def by (simp add: rne_def)
qed

lemma instantiate_0_6:
  "instantiate True (5404319552844595 / 9007199254740992) =
     Inr (Some (zeroed\<lparr>rate := 5404319552844595 / 9007199254740992, n_fade_samples := 0,
                         n_loop_samples := 3\<rparr>))"
  using instantiate_in_range [of "5404319552844595 / 9007199254740992"]
  by (simp add: fl64_of_product_0_6 c_trunc_def)

text \<open>
  Beyond the range of \<^verbatim>\<open>int\<close> the conversion of the loop length is undefined: at the
  sample rate 500000000 the product is 2500000000.
\<close>

lemma instantiate_overflow: "instantiate True 500000000 = Inl IntOverflow"
proof -
  have a: "fl64 (26214400390625 / 262144) = 26214400390625 / 262144"
    using fl64_dyadic [of 26214400390625 18] by simp
  have b: "fl64 250000000 = 250000000" using fl64_dyadic [of 250000000 0] by simp
  have c: "fl64 2500000000 = 2500000000" using fl64_dyadic [of 2500000000 0] by simp
  show ?thesis
    by (simp add: instantiate_def to_int_def c_trunc_def c02f c05f a b c)
qed

subsection \<open>The cursor bounds are kept by every block\<close>

text \<open>
  The sizes that \<^verbatim>\<open>instantiate\<close> computes are ordered as soon as the loop length is
  positive: the fade length \<open>rate\<close> is then not negative and below the loop length
  \<open>5 * rate\<close>. So a state with such sizes and a read cursor inside the loop satisfies
  \<open>cursors_ok\<close>.
\<close>

lemma sizes_ordered:
  assumes "1 \<le> c_trunc (fl64 (5 * r))"
  shows "0 \<le> c_trunc r \<and> c_trunc r < c_trunc (fl64 (5 * r))"
proof -
  define C where "C = fl64 (5 * r)"
  define eta :: real where "eta = 1 / 2 ^ 1075"
  have eta: "0 \<le> eta" "eta \<le> 1 / 2"
  proof -
    show "0 \<le> eta" by (simp add: eta_def)
    have "(1::real) / 2 ^ 1075 \<le> 1 / 2 ^ 1"
      by (intro divide_left_mono power_increasing) simp_all
    then show "eta \<le> 1 / 2" by (simp add: eta_def)
  qed
  have err: "\<bar>C - 5 * r\<bar> \<le> \<bar>5 * r\<bar> / 2 ^ 53 + eta"
    using fl64_error [of "5 * r"] by (simp only: C_def eta_def)
  have C1: "1 \<le> C"
  proof (rule ccontr)
    assume "\<not> 1 \<le> C"
    then have "c_trunc C \<le> 0" by (auto simp: c_trunc_def floor_le_iff ceiling_le_iff)
    with assms show False by (simp add: C_def)
  qed
  have rpos: "0 < r"
  proof (rule ccontr)
    assume "\<not> 0 < r"
    then have n: "\<bar>5 * r\<bar> = - (5 * r)" "5 * r \<le> 0" by simp_all
    have "0 \<le> - (5 * r) / 2 ^ 53" using n(2) by simp
    moreover have "- (5 * r) / 2 ^ 53 \<le> - (5 * r)"
      using n(2) by (simp add: field_simps)
    ultimately have "C \<le> eta" using err unfolding n(1) by linarith
    with C1 eta show False by linarith
  qed
  then have fl: "c_trunc r = \<lfloor>r\<rfloor>" "0 \<le> \<lfloor>r\<rfloor>" by (simp_all add: c_trunc_def)
  have CC: "c_trunc C = \<lfloor>C\<rfloor>" using C1 by (simp add: c_trunc_def)
  have "of_int \<lfloor>r\<rfloor> + 1 \<le> C"
  proof (cases "r < 1")
    case True
    with rpos have "\<lfloor>r\<rfloor> = 0" by (simp add: floor_eq_iff)
    with C1 show ?thesis by simp
  next
    case False
    then have r1: "1 \<le> r" by simp
    then have a: "\<bar>5 * r\<bar> = 5 * r" by simp
    have "5 * r / 2 ^ 53 \<le> r / 2" using r1 by (simp add: field_simps)
    then have "4 * r \<le> C" using err eta r1 unfolding a by linarith
    moreover have "of_int \<lfloor>r\<rfloor> \<le> r" by simp
    ultimately show ?thesis using r1 by linarith
  qed
  then have "\<lfloor>r\<rfloor> + 1 \<le> \<lfloor>C\<rfloor>" by (simp add: le_floor_iff)
  with fl CC show ?thesis by (simp add: C_def)
qed

lemma instantiated_cursors_ok:
  assumes "instantiated s"
    and "n_fade_samples s \<le> n_loop_samples s" and "n_loop_samples s \<le> MAX_TAPE_LEN"
    and "0 \<le> pos_w s" and "pos_w s \<le> n_loop_samples s"
    and "0 \<le> pos_r s" and "pos_r s < n_loop_samples s"
  shows "cursors_ok s"
proof -
  from assms(1) obtain r i where i: "instantiate True r = Inr (Some i)"
    and sz: "n_fade_samples s = n_fade_samples i" "n_loop_samples s = n_loop_samples i"
    unfolding instantiated_def by blast
  from instantiate_sizes [OF i] sz have
    "n_fade_samples s = c_trunc r" "n_loop_samples s = c_trunc (fl64 (5 * r))" by simp_all
  moreover from this assms(6,7) have "1 \<le> c_trunc (fl64 (5 * r))" by simp
  ultimately have "0 \<le> n_fade_samples s \<and> n_fade_samples s < n_loop_samples s"
    using sizes_ordered [of r] by simp
  with assms show ?thesis by (simp add: cursors_ok_def)
qed

text \<open>
  C10: for every call of \<^verbatim>\<open>run\<close> on a state with \<open>n_fade_samples \<le> n_loop_samples \<le>
  MAX_TAPE_LEN\<close>, \<open>pos_w\<close> in \<open>[0, n_loop_samples]\<close> and \<open>pos_r\<close> in
  \<open>[0, n_loop_samples)\<close>, every buffer index read or written during the block lies in
  \<open>[0, n_loop_samples)\<close>, and on return \<open>pos_w\<close> is again in \<open>[0, n_loop_samples]\<close> and
  \<open>pos_r\<close> in \<open>[0, n_loop_samples)\<close>. The states are those whose two sizes
  \<^verbatim>\<open>instantiate\<close> has computed, as they are in every state the plugin is in; the call
  returns, writes one output pair per input pair and leaves the sizes as they were.
\<close>

theorem cursor_invariant:
  assumes "instantiated s"
    and "n_fade_samples s \<le> n_loop_samples s" and "n_loop_samples s \<le> MAX_TAPE_LEN"
    and "0 \<le> pos_w s" and "pos_w s \<le> n_loop_samples s"
    and "0 \<le> pos_r s" and "pos_r s < n_loop_samples s"
  shows "\<exists>s' outs trs. run s blend trig ins = Inr (s', outs, trs) \<and>
       (\<forall>i\<in>set trs. 0 \<le> i \<and> i < n_loop_samples s) \<and>
       0 \<le> pos_w s' \<and> pos_w s' \<le> n_loop_samples s' \<and>
       0 \<le> pos_r s' \<and> pos_r s' < n_loop_samples s' \<and>
       instantiated s' \<and> n_fade_samples s' \<le> n_loop_samples s' \<and>
       n_loop_samples s' \<le> MAX_TAPE_LEN \<and>
       n_loop_samples s' = n_loop_samples s \<and> n_fade_samples s' = n_fade_samples s \<and>
       length outs = length ins"
proof -
  from instantiated_cursors_ok [OF assms] have "cursors_ok s" .
  from run_ok [OF this, of blend trig ins] obtain s' outs trs where
    r: "run s blend trig ins = Inr (s', outs, trs)" and ok: "cursors_ok s'" and
    sz: "n_loop_samples s' = n_loop_samples s" "n_fade_samples s' = n_fade_samples s" and
    len: "length outs = length ins" and tr: "\<forall>i\<in>set trs. 0 \<le> i \<and> i < n_loop_samples s"
    by blast
  from assms(1) sz have "instantiated s'" by (simp add: instantiated_def)
  with r ok sz len tr show ?thesis by (simp add: cursors_ok_def)
qed

text \<open>
  The freshly activated instance of sample rate 4, triggered: two samples are read from
  the positions 0 and 1.
\<close>

lemma instantiated_tiny: "instantiated tiny"
  unfolding instantiated_def
  by (rule exI [of _ 4], rule exI [of _ "zeroed\<lparr>rate := 4, n_fade_samples := 4, n_loop_samples := 20\<rparr>"])
     (simp add: instantiate_4 tiny_eq)

theorem cursor_invariant_witness:
  "instantiated tiny \<and>
   n_fade_samples tiny \<le> n_loop_samples tiny \<and> n_loop_samples tiny \<le> MAX_TAPE_LEN \<and>
   0 \<le> pos_w tiny \<and> pos_w tiny \<le> n_loop_samples tiny \<and>
   0 \<le> pos_r tiny \<and> pos_r tiny < n_loop_samples tiny \<and>
   run tiny 50 1 [(1, 1), (1, 1)] =
     Inr (tiny\<lparr>listening := True, wet_gain := 10683731 / 536870912,
            dry_gain := 10683731 / 536870912, pos_r := 2\<rparr>,
          [(5368709 / 536870912, 5368709 / 536870912),
           (10683731 / 536870912, 10683731 / 536870912)], [0, 1]) \<and>
   n_loop_samples tiny = 20"
proof -
  have b: "n_fade_samples tiny \<le> n_loop_samples tiny" "n_loop_samples tiny \<le> MAX_TAPE_LEN"
    "0 \<le> pos_w tiny" "pos_w tiny \<le> n_loop_samples tiny"
    "0 \<le> pos_r tiny" "pos_r tiny < n_loop_samples tiny"
    by (simp_all add: tiny_eq MAX_TAPE_LEN_def)
  have r: "run tiny 50 1 [(1, 1), (1, 1)] =
     Inr (tiny\<lparr>listening := True, wet_gain := 10683731 / 536870912,
            dry_gain := 10683731 / 536870912, pos_r := 2\<rparr>,
          [(5368709 / 536870912, 5368709 / 536870912),
           (10683731 / 536870912, 10683731 / 536870912)], [0, 1])"
    by (simp add: tiny_eq eval_defs)
  from cursor_invariant [OF instantiated_tiny b, of 50 1 "[(1, 1), (1, 1)]"] instantiated_tiny b r
  show ?thesis by (simp add: tiny_eq)
qed

end
